theory Spec2Isabelle
  imports Main "HOL-Library.Word"
begin

unbundle bit_operations_syntax

section \<open>The authentication bridge of ssh/sshr.go\<close>

text \<open>
  A shallow embedding of \<^verbatim>\<open>ssh/sshr.go\<close>: the functions of that file are HOL functions
  with the same names, branch order and checks. Go's \<^verbatim>\<open>[]byte\<close> is a list of 8-bit
  words, Go's \<^verbatim>\<open>string\<close> is a \<^typ>\<open>string\<close>; the conversions between the two keep the
  bytes. A Go function that returns \<^verbatim>\<open>(T, error)\<close> returns a pair or a sum here, a
  panic is the value \<open>Panic\<close>, and the two transports are part of the state that every
  effectful function takes and returns.
\<close>

subsection \<open>Bytes, errors and panics\<close>

type_synonym byte = "8 word"
type_synonym bytes = "byte list"

definition bytes_of_string :: "string \<Rightarrow> bytes" where
  "bytes_of_string s = map of_char s"

definition string_of_bytes :: "bytes \<Rightarrow> string" where
  "string_of_bytes b = map (\<lambda>w. char_of (unat w)) b"

text \<open>
  The errors the file creates itself, and \<open>ErrExternal\<close> for every error that comes
  out of the library, a hook or the operating system.
\<close>

datatype error =
    ErrNotPublickeyMsg
  | ErrParse byte
  | ErrAlgoNotAccepted string
  | ErrPermTooOpen string
  | ErrAuthRequestExpected
  | ErrUnknownService string
  | ErrExternal string

datatype panic = NilDereference | IndexOutOfRange

datatype 'a outcome = Return 'a | Panic panic

subsection \<open>Messages and keys\<close>

definition msgServiceRequest :: byte where "msgServiceRequest = 5"
definition msgServiceAccept :: byte where "msgServiceAccept = 6"
definition msgUserAuthRequest :: byte where "msgUserAuthRequest = 50"
definition msgUserAuthFailure :: byte where "msgUserAuthFailure = 51"
definition msgUserAuthSuccess :: byte where "msgUserAuthSuccess = 52"
definition msgUserAuthBanner :: byte where "msgUserAuthBanner = 53"
definition msgUserAuthPubKeyOk :: byte where "msgUserAuthPubKeyOk = 60"

definition serviceUserAuth :: string where "serviceUserAuth = ''ssh-userauth''"
definition serviceSSH :: string where "serviceSSH = ''ssh-connection''"

record userAuthRequestMsg =
  User :: string
  Service :: string
  Method :: string
  Payload :: bytes

record userAuthPubKeyOkMsg =
  ok_Algo :: string
  ok_PubKey :: bytes

record userAuthFailureMsg =
  Methods :: "string list"
  PartialSuccess :: bool

record publickeyAuthMsg =
  pka_User :: string
  pka_Service :: string
  pka_Method :: string
  HasSig :: bool
  Algoname :: string
  PubKey :: bytes
  Sig :: bytes

record Signature =
  Format :: string
  Blob :: bytes

text \<open>
  The interfaces \<^verbatim>\<open>PublicKey\<close> and \<^verbatim>\<open>Signer\<close> are records of their methods.
  \<open>pk_Verify\<close> returns the error of \<^verbatim>\<open>Verify\<close> (\<open>None\<close> is \<^verbatim>\<open>nil\<close>); \<open>sg_Sign\<close>
  takes the random source of the transport's configuration and the data.
\<close>

record PublicKey =
  pk_Type :: string
  pk_Marshal :: bytes
  pk_Verify :: "bytes \<Rightarrow> Signature \<Rightarrow> error option"

record Signer =
  sg_PublicKey :: PublicKey
  sg_Sign :: "nat \<Rightarrow> bytes \<Rightarrow> error + Signature"

text \<open>
  \<^verbatim>\<open>AuthMethod\<close> is an interface; \<^verbatim>\<open>publicKeyCallback\<close> is the one implementation the
  type assertion of \<^verbatim>\<open>handleAuthMsg\<close> accepts.
\<close>

datatype AuthMethod =
    publicKeyCallback "unit \<Rightarrow> error + Signer list"
  | otherAuthMethod

subsection \<open>The environment: the SSH library and the file system\<close>

record osfile =
  mode :: "32 word"
  contents :: bytes

text \<open>
  The functions of package \<^verbatim>\<open>ssh\<close> and of the standard library that
  \<^verbatim>\<open>sshr.go\<close> calls and does not define are parameters, one field each. The theorems
  hold for every environment. A parse function with an \<^verbatim>\<open>ok\<close> flag returns an option,
  \<^verbatim>\<open>Unmarshal\<close> returns the decoded message or its error, \<open>marshalString\<close> is the
  buffer of \<^verbatim>\<open>stringLength(len(s))\<close> bytes that \<^verbatim>\<open>marshalString\<close> fills, and \<open>fs\<close> is
  what opening a path gives.
\<close>

record env =
  isAcceptableAlgo :: "string \<Rightarrow> bool"
  parseString :: "bytes \<Rightarrow> (bytes \<times> bytes) option"
  parseSignature :: "bytes \<Rightarrow> (Signature \<times> bytes) option"
  ParsePublicKey :: "bytes \<Rightarrow> error + PublicKey"
  ParseAuthorizedKey :: "bytes \<Rightarrow> error + (PublicKey \<times> bytes)"
  ParsePrivateKey :: "bytes \<Rightarrow> error + Signer option"
  PublicKeys :: "Signer \<Rightarrow> AuthMethod"
  buildDataSignedForAuth :: "bytes \<Rightarrow> userAuthRequestMsg \<Rightarrow> bytes \<Rightarrow> bytes \<Rightarrow> bytes"
  Marshal_userAuthRequestMsg :: "userAuthRequestMsg \<Rightarrow> bytes"
  Marshal_userAuthPubKeyOkMsg :: "userAuthPubKeyOkMsg \<Rightarrow> bytes"
  Marshal_userAuthFailureMsg :: "userAuthFailureMsg \<Rightarrow> bytes"
  Marshal_publickeyAuthMsg :: "publickeyAuthMsg \<Rightarrow> bytes"
  Marshal_Signature :: "Signature \<Rightarrow> bytes"
  Marshal_serviceRequestMsg :: "string \<Rightarrow> bytes"
  marshalString :: "bytes \<Rightarrow> bytes"
  Unmarshal_userAuthRequestMsg :: "bytes \<Rightarrow> error + userAuthRequestMsg"
  Unmarshal_serviceAcceptMsg :: "bytes \<Rightarrow> error option"
  path_Join :: "string list \<Rightarrow> string"
  fs :: "string \<Rightarrow> error + osfile"

subsection \<open>Transports and the proxy connection\<close>

text \<open>
  Modelled from the spec: the transport handle (section 3, "Transport Handle
  (external)"), whose code is not in \<^verbatim>\<open>sshr.go\<close>: a packet channel with
  \<^verbatim>\<open>read_packet\<close>, \<^verbatim>\<open>write_packet\<close>, a session identifier and a random source.
  \<open>incoming\<close> is the script of what the successive calls of \<^verbatim>\<open>readPacket\<close> return
  (a read on the exhausted script returns the end-of-file error), \<open>writes\<close> is the
  list of packets handed to \<^verbatim>\<open>writePacket\<close> in call order, and \<open>writeResults\<close> is
  the script of what those calls return (when exhausted, a write succeeds).
\<close>

record transport =
  sessionID :: bytes
  Rand :: nat
  incoming :: "(error + bytes) list"
  writes :: "bytes list"
  writeResults :: "error option list"

definition readPacket :: "transport \<Rightarrow> (error + bytes) \<times> transport" where
  "readPacket t =
     (case incoming t of
        [] \<Rightarrow> (Inl (ErrExternal ''EOF''), t)
      | r # rs \<Rightarrow> (r, t\<lparr>incoming := rs\<rparr>))"

definition writePacket :: "transport \<Rightarrow> bytes \<Rightarrow> error option \<times> transport" where
  "writePacket t packet =
     (case writeResults t of
        [] \<Rightarrow> (None, t\<lparr>writes := writes t @ [packet]\<rparr>)
      | r # rs \<Rightarrow> (r, t\<lparr>writes := writes t @ [packet], writeResults := rs\<rparr>))"

text \<open>
  \<^verbatim>\<open>ProxyConn\<close>. Of a \<^verbatim>\<open>connection\<close> the file uses the transport only, so
  \<open>Upstream\<close> and \<open>Downstream\<close> are the transports themselves.
\<close>

record ProxyConn =
  conn_User :: string
  DestinationHost :: string
  Upstream :: transport
  Downstream :: transport

text \<open>
  \<^verbatim>\<open>ProxyConfig\<close>: the fields \<^verbatim>\<open>handleAuthMsg\<close> and \<^verbatim>\<open>fetchPrivateKey\<close> read.
  A hook that is \<^verbatim>\<open>nil\<close> is \<open>None\<close>.
\<close>

record ProxyConfig =
  FetchAuthorizedKeysHook :: "(string \<Rightarrow> error + bytes) option"
  FetchPrivateKeyHook :: "(string \<Rightarrow> error + bytes) option"
  UseMasterKey :: bool
  MasterKeyPath :: string

subsection \<open>Files of a user\<close>

definition userAuthorizedKeysFile :: string where
  "userAuthorizedKeysFile = ''authorized_keys''"

definition userPrivateKeyFile :: string where
  "userPrivateKeyFile = ''id_rsa''"

definition userSpecFile :: "env \<Rightarrow> string \<Rightarrow> string \<Rightarrow> string" where
  "userSpecFile e username file = path_Join e [''/home'', username, ''/.ssh'', file]"

text \<open>\<^verbatim>\<open>ioutil.ReadFile\<close> on the file system of the environment.\<close>

definition ReadFile :: "env \<Rightarrow> string \<Rightarrow> error + bytes" where
  "ReadFile e filename =
     (case fs e filename of Inl err \<Rightarrow> Inl err | Inr f \<Rightarrow> Inr (contents f))"

text \<open>
  \<^verbatim>\<open>checkPermission\<close> (lines 184-202): open, stat, and the test of the permission bits
  (\<^verbatim>\<open>Perm()\<close> is the mode masked with octal 777, which is \<open>0x1FF\<close>; octal 077 is
  \<open>0x3F\<close>). It returns the error, \<open>None\<close> for \<^verbatim>\<open>nil\<close>.
\<close>

definition checkPermission :: "env \<Rightarrow> string \<Rightarrow> string \<Rightarrow> error option" where
  "checkPermission e file user =
     (let filename = userSpecFile e user file in
      case fs e filename of
        Inl err \<Rightarrow> Some err
      | Inr fi \<Rightarrow>
          if (mode fi AND 0x1FF) AND 0x3F \<noteq> 0 then Some (ErrPermTooOpen filename)
          else None)"

text \<open>\<^verbatim>\<open>userFile.read\<close> (lines 224-226).\<close>

definition read :: "env \<Rightarrow> string \<Rightarrow> string \<Rightarrow> error + bytes" where
  "read e file username = ReadFile e (userSpecFile e username file)"

definition fetchAuthorizedKeysFromHomeDir :: "env \<Rightarrow> string \<Rightarrow> error + bytes" where
  "fetchAuthorizedKeysFromHomeDir e username =
     (case read e userAuthorizedKeysFile username of
        Inl err \<Rightarrow> Inl err
      | Inr authKeys \<Rightarrow> Inr authKeys)"

definition fetchPrivateKeyFromHomeDir :: "env \<Rightarrow> string \<Rightarrow> error + bytes" where
  "fetchPrivateKeyFromHomeDir e username =
     (case read e userPrivateKeyFile username of
        Inl err \<Rightarrow> Inl err
      | Inr privateBytes \<Rightarrow> Inr privateBytes)"

definition fetchPrivateKey :: "env \<Rightarrow> ProxyConfig \<Rightarrow> string \<Rightarrow> error + bytes" where
  "fetchPrivateKey e proxyConf username =
     (if UseMasterKey proxyConf then
        (case ReadFile e (MasterKeyPath proxyConf) of
           Inl err \<Rightarrow> Inl err
         | Inr privateBytes \<Rightarrow> Inr privateBytes)
      else if FetchPrivateKeyHook proxyConf = None then
        (case fetchPrivateKeyFromHomeDir e username of
           Inl err \<Rightarrow> Inl err
         | Inr privateBytes \<Rightarrow> Inr privateBytes)
      else
        (case the (FetchPrivateKeyHook proxyConf) username of
           Inl err \<Rightarrow> Inl err
         | Inr privateBytes \<Rightarrow> Inr privateBytes))"

subsection \<open>The codec of publickey requests\<close>

text \<open>
  \<^verbatim>\<open>parsePublicKeyMsg\<close> (lines 378-417). The result is the error, or the key, the
  query flag and the signature (\<open>None\<close> is the \<^verbatim>\<open>nil\<close> pointer of a query).
\<close>

definition parsePublicKeyMsg ::
  "env \<Rightarrow> userAuthRequestMsg \<Rightarrow> error + (PublicKey \<times> bool \<times> Signature option)" where
  "parsePublicKeyMsg e userAuthReq =
     (if Method userAuthReq \<noteq> ''publickey'' then Inl ErrNotPublickeyMsg
      else
        let payload = Payload userAuthReq in
        if length payload < 1 then Inl (ErrParse msgUserAuthRequest)
        else
          let isQuery = (hd payload = 0);
              payload = tl payload
          in case parseString e payload of
               None \<Rightarrow> Inl (ErrParse msgUserAuthRequest)
             | Some (algoBytes, payload) \<Rightarrow>
                 let algo = string_of_bytes algoBytes in
                 if \<not> isAcceptableAlgo e algo then Inl (ErrAlgoNotAccepted algo)
                 else
                   (case parseString e payload of
                      None \<Rightarrow> Inl (ErrParse msgUserAuthRequest)
                    | Some (pubKeyData, payload) \<Rightarrow>
                        (case ParsePublicKey e pubKeyData of
                           Inl err \<Rightarrow> Inl err
                         | Inr publicKey \<Rightarrow>
                             if \<not> isQuery then
                               (case parseSignature e payload of
                                  None \<Rightarrow> Inl (ErrParse msgUserAuthRequest)
                                | Some (sig, payload) \<Rightarrow>
                                    if length payload > 0
                                    then Inl (ErrParse msgUserAuthRequest)
                                    else Inr (publicKey, isQuery, Some sig))
                             else Inr (publicKey, isQuery, None))))"

text \<open>\<^verbatim>\<open>noneAuthMsg\<close> (lines 432-438); the payload is left empty.\<close>

definition noneAuthMsg :: "string \<Rightarrow> userAuthRequestMsg" where
  "noneAuthMsg user = \<lparr>User = user, Service = serviceSSH, Method = ''none'', Payload = []\<rparr>"

subsection \<open>Replies to the downstream\<close>

text \<open>\<^verbatim>\<open>sendOKMsg\<close> (lines 208-215) and \<^verbatim>\<open>sendFailureMsg\<close> (lines 217-222).\<close>

definition sendOKMsg :: "env \<Rightarrow> ProxyConn \<Rightarrow> PublicKey \<Rightarrow> error option \<times> ProxyConn" where
  "sendOKMsg e p key =
     (let okMsg = \<lparr>ok_Algo = pk_Type key, ok_PubKey = pk_Marshal key\<rparr>;
          (err, t) = writePacket (Downstream p) (Marshal_userAuthPubKeyOkMsg e okMsg)
      in (err, p\<lparr>Downstream := t\<rparr>))"

definition sendFailureMsg :: "env \<Rightarrow> ProxyConn \<Rightarrow> string \<Rightarrow> error option \<times> ProxyConn" where
  "sendFailureMsg e p method =
     (let failureMsg = \<lparr>Methods = [] @ [method], PartialSuccess = False\<rparr>;
          (err, t) = writePacket (Downstream p) (Marshal_userAuthFailureMsg e failureMsg)
      in (err, p\<lparr>Downstream := t\<rparr>))"

subsection \<open>Verifying the downstream signature, signing for the upstream\<close>

text \<open>\<^verbatim>\<open>VerifySignature\<close> (lines 228-239).\<close>

definition VerifySignature ::
  "env \<Rightarrow> ProxyConn \<Rightarrow> userAuthRequestMsg \<Rightarrow> PublicKey \<Rightarrow> Signature \<Rightarrow> bool \<times> error option" where
  "VerifySignature e p msg publicKey sig =
     (if \<not> isAcceptableAlgo e (Format sig) then (False, Some (ErrAlgoNotAccepted (Format sig)))
      else
        let signedData =
              buildDataSignedForAuth e (sessionID (Downstream p)) msg
                (bytes_of_string (pk_Type publicKey)) (pk_Marshal publicKey)
        in if pk_Verify publicKey signedData sig \<noteq> None then (False, None)
           else (True, None))"

text \<open>
  \<^verbatim>\<open>signAgain\<close> (lines 241-277). The result is the pair the Go function returns: the
  message pointer (\<open>None\<close> is \<^verbatim>\<open>nil\<close>) and the error. \<^verbatim>\<open>Unmarshal\<close> overwrites every
  field of the message it is given, so the message returned is the decoded one.
\<close>

definition signAgain ::
  "env \<Rightarrow> ProxyConn \<Rightarrow> string \<Rightarrow> userAuthRequestMsg \<Rightarrow> Signer
     \<Rightarrow> userAuthRequestMsg option \<times> error option" where
  "signAgain e p user msg signer =
     (let rand = Rand (Upstream p);
          sessionID = sessionID (Upstream p);
          upStreamPublicKey = sg_PublicKey signer;
          upStreamPublicKeyData = pk_Marshal upStreamPublicKey
      in case sg_Sign signer rand
                (buildDataSignedForAuth e sessionID
                   \<lparr>User = user, Service = serviceSSH, Method = ''publickey'', Payload = []\<rparr>
                   (bytes_of_string (pk_Type upStreamPublicKey)) upStreamPublicKeyData) of
           Inl err \<Rightarrow> (None, Some err)
         | Inr sign \<Rightarrow>
             let s = Marshal_Signature e sign;
                 sig = marshalString e s;
                 publicKeyMsg =
                   \<lparr>pka_User = user, pka_Service = serviceSSH, pka_Method = ''publickey'',
                    HasSig = True, Algoname = pk_Type upStreamPublicKey,
                    PubKey = upStreamPublicKeyData, Sig = sig\<rparr>
             in case Unmarshal_userAuthRequestMsg e (Marshal_publickeyAuthMsg e publicKeyMsg) of
                  Inl err \<Rightarrow> (None, Some err)
                | Inr msg' \<Rightarrow> (Some msg', None))"

subsection \<open>The authorized-key matcher\<close>

text \<open>
  \<^verbatim>\<open>checkPublicKeyRegistration\<close> (lines 128-144). The loop runs as long as bytes are
  left, and the parser of the library decides what is left; a run that never ends is
  \<open>None\<close>.
\<close>

partial_function (option) checkPublicKeyRegistration ::
  "env \<Rightarrow> bytes \<Rightarrow> PublicKey \<Rightarrow> (bool \<times> error option) option" where
  "checkPublicKeyRegistration e authKeys publicKey =
     (if length authKeys > 0 then
        (case ParseAuthorizedKey e authKeys of
           Inl err \<Rightarrow> Some (False, Some err)
         | Inr (authorizedPublicKey, rest) \<Rightarrow>
             if pk_Marshal authorizedPublicKey = pk_Marshal publicKey then Some (True, None)
             else checkPublicKeyRegistration e rest publicKey)
      else Some (False, None))"

subsection \<open>One downstream request\<close>

text \<open>
  Lines 124-125, where every \<^verbatim>\<open>break\<close> of the switch arrives:
  \<^verbatim>\<open>err := p.sendFailureMsg(msg.Method); return nil, err\<close>. The argument is the
  variable \<^verbatim>\<open>msg\<close> as it stands there: a pointer, \<^verbatim>\<open>nil\<close> when it is \<open>None\<close>, and
  reading a field through \<^verbatim>\<open>nil\<close> panics.
\<close>

definition failureExit ::
  "env \<Rightarrow> ProxyConn \<Rightarrow> userAuthRequestMsg option
     \<Rightarrow> ProxyConn \<times> (userAuthRequestMsg option \<times> error option) outcome" where
  "failureExit e p msg =
     (case msg of
        None \<Rightarrow> (p, Panic NilDereference)
      | Some m \<Rightarrow>
          let (err, p') = sendFailureMsg e p (Method m)
          in (p', Return (None, err)))"

text \<open>
  Lines 106-112, the loop over the signers: its body returns or breaks in the first
  iteration. The assignment \<^verbatim>\<open>msg, err = p.signAgain(...)\<close> overwrites the variable
  \<^verbatim>\<open>msg\<close> before the error is tested.
\<close>

definition signLoop ::
  "env \<Rightarrow> ProxyConn \<Rightarrow> string \<Rightarrow> userAuthRequestMsg \<Rightarrow> Signer list
     \<Rightarrow> ProxyConn \<times> (userAuthRequestMsg option \<times> error option) outcome" where
  "signLoop e p username msg signers =
     (case signers of
        [] \<Rightarrow> failureExit e p (Some msg)
      | signer # _ \<Rightarrow>
          let (msg', err) = signAgain e p username msg signer
          in if err \<noteq> None then failureExit e p msg'
             else (p, Return (msg', None)))"

text \<open>
  Lines 85-112 of \<^verbatim>\<open>handleAuthMsg\<close>: the private key, the signer, and the new
  request.
\<close>

definition resign ::
  "env \<Rightarrow> ProxyConfig \<Rightarrow> ProxyConn \<Rightarrow> string \<Rightarrow> userAuthRequestMsg
     \<Rightarrow> ProxyConn \<times> (userAuthRequestMsg option \<times> error option) outcome" where
  "resign e proxyConf p username msg =
     (case fetchPrivateKey e proxyConf (conn_User p) of
        Inl err \<Rightarrow> failureExit e p (Some msg)
      | Inr privateBytes \<Rightarrow>
          (case ParsePrivateKey e privateBytes of
             Inl err \<Rightarrow> failureExit e p (Some msg)
           | Inr None \<Rightarrow> failureExit e p (Some msg)
           | Inr (Some signer) \<Rightarrow>
               (case PublicKeys e signer of
                  otherAuthMethod \<Rightarrow> failureExit e p (Some msg)
                | publicKeyCallback f \<Rightarrow>
                    (case f () of
                       Inl err \<Rightarrow> failureExit e p (Some msg)
                     | Inr signers \<Rightarrow>
                         if length signers = 0 then failureExit e p (Some msg)
                         else signLoop e p username msg signers))))"

text \<open>
  Lines 54-56: a hook for the authorized keys that is \<^verbatim>\<open>nil\<close> is replaced with
  the reader of the home directory. The Go code stores the replacement in the
  configuration, which changes no later call: the stored function is the one chosen
  here.
\<close>

definition authorizedKeysHook :: "env \<Rightarrow> ProxyConfig \<Rightarrow> string \<Rightarrow> error + bytes" where
  "authorizedKeysHook e proxyConf =
     (case FetchAuthorizedKeysHook proxyConf of
        None \<Rightarrow> fetchAuthorizedKeysFromHomeDir e
      | Some h \<Rightarrow> h)"

text \<open>
  \<^verbatim>\<open>handleAuthMsg\<close> (lines 50-126). The result is \<open>None\<close> when the matcher does not
  return; otherwise the connection and the returned pair or the panic.
\<close>

definition handleAuthMsg ::
  "env \<Rightarrow> ProxyConfig \<Rightarrow> ProxyConn \<Rightarrow> userAuthRequestMsg
     \<Rightarrow> (ProxyConn \<times> (userAuthRequestMsg option \<times> error option) outcome) option" where
  "handleAuthMsg e proxyConf p msg =
     (let username = User msg in
      if Method msg = ''publickey'' then
        let hook = authorizedKeysHook e proxyConf
        in case parsePublicKeyMsg e msg of
             Inl err \<Rightarrow> Some (failureExit e p (Some msg))
           | Inr (downStreamPublicKey, isQuery, sig) \<Rightarrow>
               if isQuery then
                 (case sendOKMsg e p downStreamPublicKey of
                    (Some err, p') \<Rightarrow> Some (p', Return (None, Some err))
                  | (None, p') \<Rightarrow> Some (p', Return (None, None)))
               else
                 (case hook username of
                    Inl err \<Rightarrow> Some (p, Return (Some (noneAuthMsg username), None))
                  | Inr authKeys \<Rightarrow>
                      (case checkPublicKeyRegistration e authKeys downStreamPublicKey of
                         None \<Rightarrow> None
                       | Some (ok, err) \<Rightarrow>
                           if err \<noteq> None \<or> \<not> ok
                           then Some (p, Return (Some (noneAuthMsg username), None))
                           else
                             (case sig of
                                None \<Rightarrow> Some (p, Panic NilDereference)
                              | Some sg \<Rightarrow>
                                  (case VerifySignature e p msg downStreamPublicKey sg of
                                     (ok, err) \<Rightarrow>
                                       if err \<noteq> None \<or> \<not> ok
                                       then Some (failureExit e p (Some msg))
                                       else Some (resign e proxyConf p username msg)))))
      else if Method msg = ''password'' then Some (p, Return (Some msg, None))
      else Some (p, Return (Some msg, None)))"

subsection \<open>The bridge step\<close>

text \<open>
  The relay loop of \<^verbatim>\<open>checkBridgeAuthWithNoBanner\<close> (lines 305-327). The byte
  \<^verbatim>\<open>packet[0]\<close> is read before the packet is written downstream; on an empty packet
  the index is out of range and the Go runtime panics. The loop ends because the
  script of the upstream transport is finite.
\<close>

function relayLoop :: "ProxyConn \<Rightarrow> ProxyConn \<times> (bool \<times> error option) outcome" where
  "relayLoop p =
     (case readPacket (Upstream p) of
        (Inl err, t) \<Rightarrow> (p\<lparr>Upstream := t\<rparr>, Return (False, Some err))
      | (Inr packet, t) \<Rightarrow>
          (case packet of
             [] \<Rightarrow> (p\<lparr>Upstream := t\<rparr>, Panic IndexOutOfRange)
           | msgType # _ \<Rightarrow>
               (case writePacket (Downstream p) packet of
                  (Some err, d) \<Rightarrow>
                    (p\<lparr>Upstream := t, Downstream := d\<rparr>, Return (False, Some err))
                | (None, d) \<Rightarrow>
                    if msgType = msgUserAuthSuccess
                    then (p\<lparr>Upstream := t, Downstream := d\<rparr>, Return (True, None))
                    else if msgType = msgUserAuthBanner
                    then relayLoop (p\<lparr>Upstream := t, Downstream := d\<rparr>)
                    else (p\<lparr>Upstream := t, Downstream := d\<rparr>, Return (False, None)))))"
  by pat_completeness auto
termination
  by (relation "measure (\<lambda>p. length (incoming (Upstream p)))")
     (auto simp: readPacket_def split: list.splits)

declare relayLoop.simps [simp del]

text \<open>\<^verbatim>\<open>checkBridgeAuthWithNoBanner\<close> (lines 299-328).\<close>

definition checkBridgeAuthWithNoBanner ::
  "ProxyConn \<Rightarrow> bytes \<Rightarrow> ProxyConn \<times> (bool \<times> error option) outcome" where
  "checkBridgeAuthWithNoBanner p packet =
     (case writePacket (Upstream p) packet of
        (Some err, t) \<Rightarrow> (p\<lparr>Upstream := t\<rparr>, Return (False, Some err))
      | (None, t) \<Rightarrow> relayLoop (p\<lparr>Upstream := t\<rparr>))"

text \<open>\<^verbatim>\<open>sendAuthReq\<close> (lines 473-484), on the transport of the connection.\<close>

definition sendAuthReq :: "env \<Rightarrow> transport \<Rightarrow> error option \<times> transport" where
  "sendAuthReq e c =
     (case writePacket c (Marshal_serviceRequestMsg e serviceUserAuth) of
        (Some err, t) \<Rightarrow> (Some err, t)
      | (None, t) \<Rightarrow>
          (case readPacket t of
             (Inl err, t') \<Rightarrow> (Some err, t')
           | (Inr packet, t') \<Rightarrow> (Unmarshal_serviceAcceptMsg e packet, t')))"

subsection \<open>The authentication loop\<close>

text \<open>
  The body of the loop of \<^verbatim>\<open>AuthenticateProxyConn\<close> in its three phases.
  \<open>bridgeStep\<close> is lines 343-351: with a message, the bridge; it leaves the function
  (\<open>Leave\<close>) on an error or on success and goes on to the next request
  (\<open>Proceed\<close>) otherwise. The \<^verbatim>\<open>fmt.Println(err)\<close> of line 340 writes to the standard
  output, which is not part of the state here.
\<close>

datatype step = Leave "error option outcome" | Proceed

definition bridgeStep ::
  "env \<Rightarrow> ProxyConn \<Rightarrow> userAuthRequestMsg option \<Rightarrow> ProxyConn \<times> step" where
  "bridgeStep e p userAuthMsg =
     (case userAuthMsg of
        None \<Rightarrow> (p, Proceed)
      | Some m \<Rightarrow>
          (case checkBridgeAuthWithNoBanner p (Marshal_userAuthRequestMsg e m) of
             (p', Panic k) \<Rightarrow> (p', Leave (Panic k))
           | (p', Return (isSuccess, Some err)) \<Rightarrow> (p', Leave (Return (Some err)))
           | (p', Return (isSuccess, None)) \<Rightarrow>
               if isSuccess then (p', Leave (Return None)) else (p', Proceed)))"

text \<open>
  \<open>nextRequest\<close> is lines 353-374: one packet of the downstream, its first byte, and
  the decoding. The inner \<^verbatim>\<open>for\<close> never runs a second time: its body breaks or returns.
\<close>

definition nextRequest ::
  "env \<Rightarrow> ProxyConn \<Rightarrow> ProxyConn \<times> (error + userAuthRequestMsg) outcome" where
  "nextRequest e p =
     (case readPacket (Downstream p) of
        (Inl err, d) \<Rightarrow> (p\<lparr>Downstream := d\<rparr>, Return (Inl err))
      | (Inr packet, d) \<Rightarrow>
          (case packet of
             [] \<Rightarrow> (p\<lparr>Downstream := d\<rparr>, Panic IndexOutOfRange)
           | b # _ \<Rightarrow>
               if b = msgUserAuthRequest then
                 (case Unmarshal_userAuthRequestMsg e packet of
                    Inl err \<Rightarrow> (p\<lparr>Downstream := d\<rparr>, Return (Inl err))
                  | Inr userAuthReq \<Rightarrow> (p\<lparr>Downstream := d\<rparr>, Return (Inr userAuthReq)))
               else (p\<lparr>Downstream := d\<rparr>, Return (Inl ErrAuthRequestExpected))))"

text \<open>
  Only \<open>nextRequest\<close> reads from the downstream, and it consumes one entry of the
  script each time: the measure of the loop.
\<close>

lemma writePacket_incoming: "writePacket t k = (r, t') \<Longrightarrow> incoming t' = incoming t"
  by (auto simp: writePacket_def split: list.splits)

lemma failureExit_incoming:
  "failureExit e p m = (p', r) \<Longrightarrow> incoming (Downstream p') = incoming (Downstream p)"
  by (auto simp: failureExit_def sendFailureMsg_def Let_def
      split: option.splits prod.splits dest: writePacket_incoming)

lemma signLoop_incoming:
  "signLoop e p u m ss = (p', r) \<Longrightarrow> incoming (Downstream p') = incoming (Downstream p)"
  by (auto simp: signLoop_def Let_def split: list.splits prod.splits if_splits
      dest: failureExit_incoming)

lemma resign_incoming:
  "resign e c p u m = (p', r) \<Longrightarrow> incoming (Downstream p') = incoming (Downstream p)"
  by (auto simp: resign_def split: sum.splits option.splits AuthMethod.splits if_splits
      dest: failureExit_incoming signLoop_incoming)

lemma handleAuthMsg_incoming:
  "handleAuthMsg e c p m = Some (p', r) \<Longrightarrow> incoming (Downstream p') = incoming (Downstream p)"
  by (auto simp: handleAuthMsg_def Let_def sendOKMsg_def
      split: sum.splits option.splits if_splits prod.splits
      dest: failureExit_incoming resign_incoming writePacket_incoming)

lemma relayLoop_incoming:
  "incoming (Downstream (fst (relayLoop p))) = incoming (Downstream p)"
proof (induction p rule: relayLoop.induct)
  case (1 p)
  show ?case
    apply (subst relayLoop.simps)
    using 1
    by (auto split: prod.splits sum.splits list.splits option.splits
        dest: writePacket_incoming)
qed

lemma checkBridge_incoming:
  "checkBridgeAuthWithNoBanner p k = (p', r) \<Longrightarrow> incoming (Downstream p') = incoming (Downstream p)"
  using relayLoop_incoming [of "p\<lparr>Upstream := snd (writePacket (Upstream p) k)\<rparr>"]
  by (auto simp: checkBridgeAuthWithNoBanner_def split: prod.splits option.splits)

lemma bridgeStep_incoming:
  "bridgeStep e p m = (p', s) \<Longrightarrow> incoming (Downstream p') = incoming (Downstream p)"
  by (auto simp: bridgeStep_def split: option.splits prod.splits outcome.splits if_splits
      dest: checkBridge_incoming)

lemma nextRequest_incoming:
  "nextRequest e p = (p', Return (Inr m)) \<Longrightarrow>
     length (incoming (Downstream p')) < length (incoming (Downstream p))"
  by (auto simp: nextRequest_def readPacket_def
      split: list.splits sum.splits if_splits)

text \<open>The loop of \<^verbatim>\<open>AuthenticateProxyConn\<close> (lines 337-375).\<close>

function authLoop ::
  "env \<Rightarrow> ProxyConfig \<Rightarrow> ProxyConn \<Rightarrow> userAuthRequestMsg
     \<Rightarrow> (ProxyConn \<times> error option outcome) option" where
  "authLoop e proxyConf p userAuthMsg =
     (case handleAuthMsg e proxyConf p userAuthMsg of
        None \<Rightarrow> None
      | Some (p1, Panic k) \<Rightarrow> Some (p1, Panic k)
      | Some (p1, Return (userAuthMsg', err)) \<Rightarrow>
          (case bridgeStep e p1 userAuthMsg' of
             (p2, Leave r) \<Rightarrow> Some (p2, r)
           | (p2, Proceed) \<Rightarrow>
               (case nextRequest e p2 of
                  (p3, Panic k) \<Rightarrow> Some (p3, Panic k)
                | (p3, Return (Inl err)) \<Rightarrow> Some (p3, Return (Some err))
                | (p3, Return (Inr userAuthReq)) \<Rightarrow> authLoop e proxyConf p3 userAuthReq)))"
  by pat_completeness auto
termination
  apply (relation "measure (\<lambda>(e, c, p, m). length (incoming (Downstream p)))")
   apply simp
  apply (auto dest!: handleAuthMsg_incoming bridgeStep_incoming [OF sym]
      nextRequest_incoming [OF sym])
  done

declare authLoop.simps [simp del]

text \<open>\<^verbatim>\<open>AuthenticateProxyConn\<close> (lines 330-376).\<close>

definition AuthenticateProxyConn ::
  "env \<Rightarrow> ProxyConfig \<Rightarrow> ProxyConn \<Rightarrow> userAuthRequestMsg
     \<Rightarrow> (ProxyConn \<times> error option outcome) option" where
  "AuthenticateProxyConn e proxyConf p initUserAuthMsg =
     (case sendAuthReq e (Upstream p) of
        (Some err, u) \<Rightarrow> Some (p\<lparr>Upstream := u\<rparr>, Return (Some err))
      | (None, u) \<Rightarrow> authLoop e proxyConf (p\<lparr>Upstream := u\<rparr>) initUserAuthMsg)"

section \<open>The conditions the claims speak of\<close>

text \<open>
  The guard of claim C1 for a request: it parses as a signed publickey request, the
  authorized keys of its user are fetched, the matcher returns true for the key and
  the verification of the signature returns true.
\<close>

definition gated :: "env \<Rightarrow> ProxyConfig \<Rightarrow> ProxyConn \<Rightarrow> userAuthRequestMsg \<Rightarrow> bool" where
  "gated e proxyConf p msg =
     (case parsePublicKeyMsg e msg of
        Inl err \<Rightarrow> False
      | Inr (key, isQuery, sig) \<Rightarrow>
          (case sig of
             None \<Rightarrow> False
           | Some sg \<Rightarrow>
               (case authorizedKeysHook e proxyConf (User msg) of
                  Inl err \<Rightarrow> False
                | Inr authKeys \<Rightarrow>
                    checkPublicKeyRegistration e authKeys key = Some (True, None)
                    \<and> VerifySignature e p msg key sg = (True, None))))"

text \<open>
  The matcher of claim C7 in the words of the spec: the entries parsed in sequence
  from the bytes, up to the first parse error (\<open>n\<close> bounds their number; the length of
  the bytes is enough when the parser consumes input), and the verdict on them: true
  at the first entry equal to the candidate, the error of an entry that does not
  parse, false when the entries are exhausted.
\<close>

fun parsedEntries :: "env \<Rightarrow> nat \<Rightarrow> bytes \<Rightarrow> (error + PublicKey) list" where
  "parsedEntries e 0 authKeys = []"
| "parsedEntries e (Suc n) authKeys =
     (if authKeys = [] then []
      else case ParseAuthorizedKey e authKeys of
             Inl err \<Rightarrow> [Inl err]
           | Inr (key, rest) \<Rightarrow> Inr key # parsedEntries e n rest)"

fun matcherSpec :: "bytes \<Rightarrow> (error + PublicKey) list \<Rightarrow> bool \<times> error option" where
  "matcherSpec candidate [] = (False, None)"
| "matcherSpec candidate (Inl err # entries) = (False, Some err)"
| "matcherSpec candidate (Inr key # entries) =
     (if pk_Marshal key = candidate then (True, None) else matcherSpec candidate entries)"

text \<open>
  The loop of \<^verbatim>\<open>AuthenticateProxyConn\<close> for claim C9: the connection and the request
  with which the loop starts an iteration, after \<open>n\<close> iterations that each went through
  the next-request phase and decoded a new request. It is \<open>None\<close> when the function
  has returned, panicked or not come back before.
\<close>

fun loopState ::
  "env \<Rightarrow> ProxyConfig \<Rightarrow> nat \<Rightarrow> ProxyConn \<Rightarrow> userAuthRequestMsg
     \<Rightarrow> (ProxyConn \<times> userAuthRequestMsg) option" where
  "loopState e proxyConf 0 p userAuthMsg = Some (p, userAuthMsg)"
| "loopState e proxyConf (Suc n) p userAuthMsg =
     (case handleAuthMsg e proxyConf p userAuthMsg of
        None \<Rightarrow> None
      | Some (p1, Panic k) \<Rightarrow> None
      | Some (p1, Return (userAuthMsg', err)) \<Rightarrow>
          (case bridgeStep e p1 userAuthMsg' of
             (p2, Leave r) \<Rightarrow> None
           | (p2, Proceed) \<Rightarrow>
               (case nextRequest e p2 of
                  (p3, Panic k) \<Rightarrow> None
                | (p3, Return (Inl err)) \<Rightarrow> None
                | (p3, Return (Inr userAuthReq)) \<Rightarrow> loopState e proxyConf n p3 userAuthReq)))"

section \<open>A sample environment\<close>

text \<open>
  Modelled from the spec: the wire formats of the SSH library, which is not in
  \<^verbatim>\<open>sshr.go\<close> (section 3, the payload of a publickey request and the signed-for-auth
  form; section 6, the message numbers). A wire string is its length in four bytes,
  most significant first, and its bytes. The keys and signatures are stand-ins: a
  key blob is the wire string of the algorithm name and the key's bytes, a private
  key has the bytes of its public key, and a signature is one byte, the sum of the
  key blob and of the signed data. An authorized-keys file holds its key blobs as
  wire strings. The environment serves to run the functions on concrete requests;
  no theorem about every environment depends on it.
\<close>

definition be32 :: "nat \<Rightarrow> bytes" where
  "be32 n = [of_nat (n div 16777216), of_nat (n div 65536), of_nat (n div 256), of_nat n]"

definition wireString :: "bytes \<Rightarrow> bytes" where
  "wireString s = be32 (length s) @ s"

definition sample_parseString :: "bytes \<Rightarrow> (bytes \<times> bytes) option" where
  "sample_parseString inp =
     (case inp of
        a # b # c # d # rest \<Rightarrow>
          let n = unat a * 16777216 + unat b * 65536 + unat c * 256 + unat d
          in if length rest < n then None else Some (take n rest, drop n rest)
      | _ \<Rightarrow> None)"

definition sample_parseSignature :: "bytes \<Rightarrow> (Signature \<times> bytes) option" where
  "sample_parseSignature inp =
     (case sample_parseString inp of
        None \<Rightarrow> None
      | Some (sigBytes, rest) \<Rightarrow>
          (case sample_parseString sigBytes of
             None \<Rightarrow> None
           | Some (format, body) \<Rightarrow>
               (case sample_parseString body of
                  None \<Rightarrow> None
                | Some (blob, trailing) \<Rightarrow>
                    if length trailing > 0 then None
                    else Some (\<lparr>Format = string_of_bytes format, Blob = blob\<rparr>, rest))))"

definition sample_mac :: "bytes \<Rightarrow> bytes \<Rightarrow> byte" where
  "sample_mac blob data = sum_list blob + sum_list data"

definition sample_key :: "string \<Rightarrow> bytes \<Rightarrow> PublicKey" where
  "sample_key algo blob =
     \<lparr>pk_Type = algo,
      pk_Marshal = blob,
      pk_Verify = (\<lambda>data sig. if Blob sig = [sample_mac blob data] then None
                               else Some (ErrExternal ''signature''))\<rparr>"

definition sample_ParsePublicKey :: "bytes \<Rightarrow> error + PublicKey" where
  "sample_ParsePublicKey blob =
     (case sample_parseString blob of
        None \<Rightarrow> Inl (ErrExternal ''key'')
      | Some (algo, rest) \<Rightarrow> Inr (sample_key (string_of_bytes algo) blob))"

definition sample_ParseAuthorizedKey :: "bytes \<Rightarrow> error + (PublicKey \<times> bytes)" where
  "sample_ParseAuthorizedKey inp =
     (case sample_parseString inp of
        None \<Rightarrow> Inl (ErrExternal ''no key found'')
      | Some (blob, rest) \<Rightarrow>
          (case sample_ParsePublicKey blob of
             Inl err \<Rightarrow> Inl err
           | Inr key \<Rightarrow> Inr (key, rest)))"

definition sample_signer :: "bytes \<Rightarrow> Signer" where
  "sample_signer private =
     (let blob = wireString (bytes_of_string ''ssh-rsa'') @ private
      in \<lparr>sg_PublicKey = sample_key ''ssh-rsa'' blob,
          sg_Sign = (\<lambda>rand data.
             if rand = 0 then Inl (ErrExternal ''random source'')
             else Inr \<lparr>Format = ''ssh-rsa'', Blob = [sample_mac blob data]\<rparr>)\<rparr>)"

definition sample_ParsePrivateKey :: "bytes \<Rightarrow> error + Signer option" where
  "sample_ParsePrivateKey private =
     (if private = [] then Inl (ErrExternal ''no key found'')
      else Inr (Some (sample_signer private)))"

definition sample_buildDataSignedForAuth ::
  "bytes \<Rightarrow> userAuthRequestMsg \<Rightarrow> bytes \<Rightarrow> bytes \<Rightarrow> bytes" where
  "sample_buildDataSignedForAuth sid req algo pubKey =
     wireString sid @ [msgUserAuthRequest] @ wireString (bytes_of_string (User req))
       @ wireString (bytes_of_string (Service req)) @ wireString (bytes_of_string (Method req))
       @ [1] @ wireString algo @ wireString pubKey"

definition sample_Marshal_request :: "userAuthRequestMsg \<Rightarrow> bytes" where
  "sample_Marshal_request m =
     msgUserAuthRequest # wireString (bytes_of_string (User m))
       @ wireString (bytes_of_string (Service m)) @ wireString (bytes_of_string (Method m))
       @ Payload m"

definition sample_Unmarshal_request :: "bytes \<Rightarrow> error + userAuthRequestMsg" where
  "sample_Unmarshal_request data =
     (case data of
        [] \<Rightarrow> Inl (ErrParse msgUserAuthRequest)
      | t # rest \<Rightarrow>
          if t \<noteq> msgUserAuthRequest then Inl (ErrExternal ''unexpected message type'')
          else
            (case sample_parseString rest of
               None \<Rightarrow> Inl (ErrExternal ''short read'')
             | Some (u, rest1) \<Rightarrow>
                 (case sample_parseString rest1 of
                    None \<Rightarrow> Inl (ErrExternal ''short read'')
                  | Some (s, rest2) \<Rightarrow>
                      (case sample_parseString rest2 of
                         None \<Rightarrow> Inl (ErrExternal ''short read'')
                       | Some (m, rest3) \<Rightarrow>
                           Inr \<lparr>User = string_of_bytes u, Service = string_of_bytes s,
                                Method = string_of_bytes m, Payload = rest3\<rparr>))))"

definition sample_Marshal_publickey :: "publickeyAuthMsg \<Rightarrow> bytes" where
  "sample_Marshal_publickey m =
     msgUserAuthRequest # wireString (bytes_of_string (pka_User m))
       @ wireString (bytes_of_string (pka_Service m))
       @ wireString (bytes_of_string (pka_Method m))
       @ [if HasSig m then 1 else 0] @ wireString (bytes_of_string (Algoname m))
       @ wireString (PubKey m) @ Sig m"

definition sample_Unmarshal_serviceAccept :: "bytes \<Rightarrow> error option" where
  "sample_Unmarshal_serviceAccept data =
     (case data of
        [] \<Rightarrow> Some (ErrParse msgServiceAccept)
      | t # rest \<Rightarrow>
          if t \<noteq> msgServiceAccept then Some (ErrExternal ''unexpected message type'')
          else
            (case sample_parseString rest of
               None \<Rightarrow> Some (ErrExternal ''short read'')
             | Some (s, rest1) \<Rightarrow> None))"

fun sample_clean :: "string \<Rightarrow> string" where
  "sample_clean (a # b # cs) =
     (if a = CHR ''/'' \<and> b = CHR ''/'' then sample_clean (b # cs)
      else a # sample_clean (b # cs))"
| "sample_clean cs = cs"

fun sample_join :: "string list \<Rightarrow> string" where
  "sample_join [] = []"
| "sample_join [x] = x"
| "sample_join (x # y # zs) = x @ CHR ''/'' # sample_join (y # zs)"

fun sample_join_methods :: "string list \<Rightarrow> string" where
  "sample_join_methods [] = []"
| "sample_join_methods [x] = x"
| "sample_join_methods (x # y # zs) = x @ CHR '','' # sample_join_methods (y # zs)"

definition sample_fs :: "string \<Rightarrow> error + osfile" where
  "sample_fs filename =
     (if filename = ''/home/alice/.ssh/authorized_keys''
      then Inr \<lparr>mode = 0x1A4, contents = wireString (wireString (bytes_of_string ''ssh-rsa'') @ [7])\<rparr>
      else if filename = ''/home/alice/.ssh/id_rsa''
      then Inr \<lparr>mode = 0x180, contents = [9]\<rparr>
      else Inl (ErrExternal ''no such file or directory''))"

definition sample_env :: env where
  "sample_env =
     \<lparr>isAcceptableAlgo = (\<lambda>algo. algo = ''ssh-rsa'' \<or> algo = ''ssh-ed25519''),
      parseString = sample_parseString,
      parseSignature = sample_parseSignature,
      ParsePublicKey = sample_ParsePublicKey,
      ParseAuthorizedKey = sample_ParseAuthorizedKey,
      ParsePrivateKey = sample_ParsePrivateKey,
      PublicKeys = (\<lambda>signer. publicKeyCallback (\<lambda>_. Inr [signer])),
      buildDataSignedForAuth = sample_buildDataSignedForAuth,
      Marshal_userAuthRequestMsg = sample_Marshal_request,
      Marshal_userAuthPubKeyOkMsg =
        (\<lambda>m. msgUserAuthPubKeyOk # wireString (bytes_of_string (ok_Algo m))
                @ wireString (ok_PubKey m)),
      Marshal_userAuthFailureMsg =
        (\<lambda>m. msgUserAuthFailure # wireString (bytes_of_string (sample_join_methods (Methods m)))
                @ [if PartialSuccess m then 1 else 0]),
      Marshal_publickeyAuthMsg = sample_Marshal_publickey,
      Marshal_Signature =
        (\<lambda>s. wireString (bytes_of_string (Format s)) @ wireString (Blob s)),
      Marshal_serviceRequestMsg = (\<lambda>s. msgServiceRequest # wireString (bytes_of_string s)),
      marshalString = wireString,
      Unmarshal_userAuthRequestMsg = sample_Unmarshal_request,
      Unmarshal_serviceAcceptMsg = sample_Unmarshal_serviceAccept,
      path_Join = (\<lambda>parts. sample_clean (sample_join parts)),
      fs = sample_fs\<rparr>"



text \<open>
  A configuration without hooks and without master key, a connection of user
  \<^verbatim>\<open>alice\<close> with the scripts and the writes of its two transports as arguments, and a
  password request.
\<close>

definition sample_conf :: ProxyConfig where
  "sample_conf =
     \<lparr>FetchAuthorizedKeysHook = None, FetchPrivateKeyHook = None,
      UseMasterKey = False, MasterKeyPath = []\<rparr>"

definition sample_conn ::
  "nat \<Rightarrow> (error + bytes) list \<Rightarrow> bytes list \<Rightarrow> (error + bytes) list \<Rightarrow> bytes list
     \<Rightarrow> ProxyConn" where
  "sample_conn rnd up upw down downw =
     \<lparr>conn_User = ''alice'', DestinationHost = ''host'',
      Upstream = \<lparr>sessionID = [3, 4], Rand = rnd, incoming = up, writes = upw,
                  writeResults = []\<rparr>,
      Downstream = \<lparr>sessionID = [1, 2], Rand = rnd, incoming = down, writes = downw,
                    writeResults = []\<rparr>\<rparr>"

definition password_request :: userAuthRequestMsg where
  "password_request =
     \<lparr>User = ''alice'', Service = serviceSSH, Method = ''password'',
      Payload = [0, 0, 0, 0, 2, 112, 119]\<rparr>"

definition failure_packet :: bytes where
  "failure_packet = [51, 0, 0, 0, 8, 112, 97, 115, 115, 119, 111, 114, 100, 0]"

text \<open>
  The \<^verbatim>\<open>SERVICE_REQUEST\<close> for \<^verbatim>\<open>ssh-userauth\<close> that \<^verbatim>\<open>sendAuthReq\<close> writes and the
  \<^verbatim>\<open>SERVICE_ACCEPT\<close> that answers it.
\<close>

definition accept_packet :: bytes where
  "accept_packet = [6, 0, 0, 0, 12, 115, 115, 104, 45, 117, 115, 101, 114, 97, 117, 116, 104]"

definition service_request_packet :: bytes where
  "service_request_packet =
     [5, 0, 0, 0, 12, 115, 115, 104, 45, 117, 115, 101, 114, 97, 117, 116, 104]"

text \<open>
  Requests of \<^verbatim>\<open>alice\<close>: a query for her key, a request signed with her key (the
  signature byte 55 is the one that verifies under the downstream session
  identifier), and a signed request with a key that is not in her authorized keys.
  The key of the proxy is the public key of her \<^verbatim>\<open>id_rsa\<close>.
\<close>

definition alice_key :: bytes where
  "alice_key = wireString (bytes_of_string ''ssh-rsa'') @ [7]"

definition mallory_key :: bytes where
  "mallory_key = wireString (bytes_of_string ''ssh-rsa'') @ [8]"

definition proxy_key :: bytes where
  "proxy_key = wireString (bytes_of_string ''ssh-rsa'') @ [9]"

definition publickey_payload :: "byte \<Rightarrow> bytes \<Rightarrow> bytes \<Rightarrow> bytes" where
  "publickey_payload hasSig blob sig =
     hasSig # wireString (bytes_of_string ''ssh-rsa'') @ wireString blob @ sig"

definition signature_field :: "byte \<Rightarrow> bytes" where
  "signature_field b = wireString (wireString (bytes_of_string ''ssh-rsa'') @ wireString [b])"

definition publickey_request :: "bytes \<Rightarrow> userAuthRequestMsg" where
  "publickey_request payload =
     \<lparr>User = ''alice'', Service = serviceSSH, Method = ''publickey'', Payload = payload\<rparr>"

definition query_request :: userAuthRequestMsg where
  "query_request = publickey_request (publickey_payload 0 alice_key [])"

definition signed_request :: userAuthRequestMsg where
  "signed_request = publickey_request (publickey_payload 1 alice_key (signature_field 55))"

definition mallory_request :: userAuthRequestMsg where
  "mallory_request = publickey_request (publickey_payload 1 mallory_key (signature_field 0))"

declare checkPublicKeyRegistration.simps [code]

section \<open>Properties\<close>

subsection \<open>What the functions read and write\<close>

lemma writePacket_writes: "writes (snd (writePacket t k)) = writes t @ [k]"
  by (simp add: writePacket_def split: list.splits)

lemma writePacket_sessionID: "sessionID (snd (writePacket t k)) = sessionID t"
  by (simp add: writePacket_def split: list.splits)

lemma relayLoop_upstream_writes:
  "writes (Upstream (fst (relayLoop p))) = writes (Upstream p)"
proof (induction p rule: relayLoop.induct)
  case (1 p)
  show ?case
    apply (subst relayLoop.simps)
    using 1
    by (auto simp: readPacket_def split: prod.splits sum.splits list.splits option.splits)
qed

lemma checkBridge_upstream_writes:
  "writes (Upstream (fst (checkBridgeAuthWithNoBanner p k))) = writes (Upstream p) @ [k]"
  using relayLoop_upstream_writes [of "p\<lparr>Upstream := snd (writePacket (Upstream p) k)\<rparr>"]
    writePacket_writes [of "Upstream p" k]
  by (auto simp: checkBridgeAuthWithNoBanner_def split: prod.splits option.splits)

lemma bridgeStep_upstream_writes:
  "writes (Upstream (fst (bridgeStep e p (Some m)))) =
     writes (Upstream p) @ [Marshal_userAuthRequestMsg e m]"
  using checkBridge_upstream_writes [of p "Marshal_userAuthRequestMsg e m"]
  by (auto simp: bridgeStep_def split: prod.splits outcome.splits option.splits)

lemma writePacket_incoming': "incoming (snd (writePacket t k)) = incoming t"
  by (simp add: writePacket_def split: list.splits)

lemma relayLoop_no_panic_script:
  "incoming (Upstream p) = script \<Longrightarrow> Inr [] \<notin> set script \<Longrightarrow> snd (relayLoop p) \<noteq> Panic k"
proof (induction script arbitrary: p)
  case Nil
  then show ?case
    by (subst relayLoop.simps) (simp add: readPacket_def)
next
  case (Cons r script)
  show ?case
  proof (cases r)
    case (Inl err)
    with Cons.prems show ?thesis
      by (subst relayLoop.simps) (simp add: readPacket_def)
  next
    case (Inr packet)
    with Cons.prems obtain b bs where packet: "packet = b # bs"
      by (cases packet) auto
    obtain w d where w: "writePacket (Downstream p) packet = (w, d)"
      by (cases "writePacket (Downstream p) packet")
    let ?p = "p\<lparr>Upstream := (Upstream p)\<lparr>incoming := script\<rparr>, Downstream := d\<rparr>"
    have "snd (relayLoop ?p) \<noteq> Panic k"
      using Cons.prems by (intro Cons.IH) simp_all
    with Cons.prems Inr packet w show ?thesis
      by (subst relayLoop.simps) (simp add: readPacket_def split: option.splits)
  qed
qed

lemma relayLoop_no_panic:
  "Inr [] \<notin> set (incoming (Upstream p)) \<Longrightarrow> snd (relayLoop p) \<noteq> Panic k"
  by (rule relayLoop_no_panic_script [OF refl])

lemma parsePublicKeyMsg_Inr:
  assumes "parsePublicKeyMsg e msg = Inr (key, q, sg)"
  shows "Method msg = ''publickey''" and "Payload msg \<noteq> []"
    and "q = (hd (Payload msg) = 0)" and "q = (sg = None)"
  using assms
  by (auto simp: parsePublicKeyMsg_def Let_def
      split: if_splits option.splits sum.splits prod.splits)

lemma failureExit_Some:
  "\<exists>p' err. failureExit e p (Some m) = (p', Return (None, err)) \<and> Upstream p' = Upstream p"
  by (simp add: failureExit_def sendFailureMsg_def split: prod.splits)

lemma failureExit_upstream: "Upstream (fst (failureExit e p mo)) = Upstream p"
  by (simp add: failureExit_def sendFailureMsg_def split: prod.splits option.splits)

lemma signLoop_upstream: "Upstream (fst (signLoop e p u m ss)) = Upstream p"
  by (simp add: signLoop_def failureExit_upstream split: list.splits prod.splits)

lemma resign_upstream: "Upstream (fst (resign e c p u m)) = Upstream p"
  by (simp add: resign_def failureExit_upstream signLoop_upstream
      split: sum.splits option.splits AuthMethod.splits)

lemma handleAuthMsg_upstream:
  "handleAuthMsg e c p m = Some (p', r) \<Longrightarrow> Upstream p' = Upstream p"
  using failureExit_upstream [of e p "Some m"] resign_upstream [of e c p "User m" m]
  by (auto simp: handleAuthMsg_def Let_def sendOKMsg_def
      split: sum.splits option.splits if_splits prod.splits)

lemma handleAuthMsg_publickey_cases:
  assumes "Method msg = ''publickey''" and "handleAuthMsg e proxyConf p msg = Some (p', r)"
  shows "gated e proxyConf p msg \<or> (\<exists>err. r = Return (None, err))
       \<or> r = Return (Some (noneAuthMsg (User msg)), None)"
  using assms failureExit_Some [of e p msg]
  by (auto simp: handleAuthMsg_def gated_def Let_def
      split: sum.splits option.splits if_splits prod.splits
      dest: parsePublicKeyMsg_Inr(4))

lemma signAgain_error: "signAgain e p u m s = (mo, Some err) \<Longrightarrow> mo = None"
  by (auto simp: signAgain_def Let_def split: sum.splits)

lemma perm_mask: "((m :: 32 word) AND 0x1FF) AND 0x3F = m AND 0x3F"
  by (simp add: and.assoc)

subsection \<open>Iterations of the loop\<close>

lemma loopState_authLoop:
  "loopState e proxyConf n p m = Some (pk, mk) \<Longrightarrow>
     authLoop e proxyConf p m = authLoop e proxyConf pk mk"
proof (induction n arbitrary: p m)
  case 0
  then show ?case by simp
next
  case (Suc n)
  from Suc.prems obtain p1 m' err p2 p3 req where
    h: "handleAuthMsg e proxyConf p m = Some (p1, Return (m', err))"
    and b: "bridgeStep e p1 m' = (p2, Proceed)"
    and r: "nextRequest e p2 = (p3, Return (Inr req))"
    and l: "loopState e proxyConf n p3 req = Some (pk, mk)"
    by (auto split: option.splits prod.splits outcome.splits step.splits sum.splits)
  have "authLoop e proxyConf p m = authLoop e proxyConf p3 req"
    by (subst authLoop.simps) (simp add: h b r)
  with Suc.IH [OF l] show ?case by simp
qed

subsection \<open>The matcher against its specification\<close>

lemma matcher_fuel:
  assumes progress:
    "\<And>inp key rest. ParseAuthorizedKey e inp = Inr (key, rest) \<Longrightarrow> length rest < length inp"
  shows "length authKeys \<le> n \<Longrightarrow>
    checkPublicKeyRegistration e authKeys publicKey =
      Some (matcherSpec (pk_Marshal publicKey) (parsedEntries e n authKeys))"
proof (induction n arbitrary: authKeys)
  case 0
  then show ?case
    by (subst checkPublicKeyRegistration.simps) simp
next
  case (Suc n)
  show ?case
  proof (cases "authKeys = []")
    case True
    then show ?thesis
      by (subst checkPublicKeyRegistration.simps) simp
  next
    case False
    show ?thesis
    proof (cases "ParseAuthorizedKey e authKeys")
      case (Inl err)
      with False show ?thesis
        by (subst checkPublicKeyRegistration.simps) simp
    next
      case (Inr kr)
      obtain key rest where kr: "kr = (key, rest)" by (cases kr)
      from progress Inr kr have "length rest < length authKeys" by simp
      with Suc.prems have "length rest \<le> n" by simp
      from Suc.IH [OF this] False Inr kr show ?thesis
        by (subst checkPublicKeyRegistration.simps) simp
    qed
  qed
qed

lemma matcherSpec_true_iff:
  "matcherSpec d (parsedEntries e n ak) = (True, None) \<longleftrightarrow>
     (\<exists>key. Inr key \<in> set (parsedEntries e n ak) \<and> pk_Marshal key = d)"
  by (induction n arbitrary: ak) (auto split: sum.splits)

lemma matcherSpec_error_iff:
  "matcherSpec d (parsedEntries e n ak) = (False, Some err) \<longleftrightarrow>
     Inl err \<in> set (parsedEntries e n ak)
     \<and> \<not> (\<exists>key. Inr key \<in> set (parsedEntries e n ak) \<and> pk_Marshal key = d)"
  by (induction n arbitrary: ak) (auto split: sum.splits)

lemma matcherSpec_false_iff:
  "matcherSpec d (parsedEntries e n ak) = (False, None) \<longleftrightarrow>
     (\<forall>x \<in> set (parsedEntries e n ak). \<exists>key. x = Inr key \<and> pk_Marshal key \<noteq> d)"
  by (induction n arbitrary: ak) (auto split: sum.splits)

subsection \<open>Runs of the sample environment\<close>

lemma sample_env_sel:
  "Marshal_userAuthRequestMsg sample_env = sample_Marshal_request"
  "Unmarshal_userAuthRequestMsg sample_env = sample_Unmarshal_request"
  by (simp_all add: sample_env_def)

lemma marshal_password_request:
  "sample_Marshal_request password_request =
     [50, 0, 0, 0, 5, 97, 108, 105, 99, 101,
      0, 0, 0, 14, 115, 115, 104, 45, 99, 111, 110, 110, 101, 99, 116, 105, 111, 110,
      0, 0, 0, 8, 112, 97, 115, 115, 119, 111, 114, 100,
      0, 0, 0, 0, 2, 112, 119]"
  by (simp add: sample_Marshal_request_def password_request_def wireString_def be32_def
      bytes_of_string_def serviceSSH_def msgUserAuthRequest_def)

lemma ssh_rsa_bytes: "bytes_of_string ''ssh-rsa'' = [115, 115, 104, 45, 114, 115, 97]"
  by (simp add: bytes_of_string_def)

lemma ssh_rsa_string: "string_of_bytes [115, 115, 104, 45, 114, 115, 97] = ''ssh-rsa''"
  by code_simp

lemma sample_env_fields:
  "isAcceptableAlgo sample_env = (\<lambda>algo. algo = ''ssh-rsa'' \<or> algo = ''ssh-ed25519'')"
  "parseString sample_env = sample_parseString"
  "parseSignature sample_env = sample_parseSignature"
  "ParsePublicKey sample_env = sample_ParsePublicKey"
  "ParseAuthorizedKey sample_env = sample_ParseAuthorizedKey"
  "ParsePrivateKey sample_env = sample_ParsePrivateKey"
  "PublicKeys sample_env = (\<lambda>signer. publicKeyCallback (\<lambda>_. Inr [signer]))"
  "buildDataSignedForAuth sample_env = sample_buildDataSignedForAuth"
  "Marshal_publickeyAuthMsg sample_env = sample_Marshal_publickey"
  "Marshal_Signature sample_env =
     (\<lambda>s. wireString (bytes_of_string (Format s)) @ wireString (Blob s))"
  "marshalString sample_env = wireString"
  "path_Join sample_env = (\<lambda>parts. sample_clean (sample_join parts))"
  "fs sample_env = sample_fs"
  by (simp_all add: sample_env_def)

lemma alice_key_bytes: "alice_key = [0, 0, 0, 7, 115, 115, 104, 45, 114, 115, 97, 7]"
  by (simp add: alice_key_def wireString_def be32_def ssh_rsa_bytes)

lemma signed_request_payload:
  "Payload signed_request =
     [1, 0, 0, 0, 7, 115, 115, 104, 45, 114, 115, 97,
      0, 0, 0, 12, 0, 0, 0, 7, 115, 115, 104, 45, 114, 115, 97, 7,
      0, 0, 0, 16, 0, 0, 0, 7, 115, 115, 104, 45, 114, 115, 97, 0, 0, 0, 1, 55]"
  by (simp add: signed_request_def publickey_request_def publickey_payload_def
      signature_field_def alice_key_bytes wireString_def be32_def ssh_rsa_bytes)

lemma parse_signed_request:
  "parsePublicKeyMsg sample_env signed_request =
     Inr (sample_key ''ssh-rsa'' alice_key, False, Some \<lparr>Format = ''ssh-rsa'', Blob = [55]\<rparr>)"
  by (simp add: parsePublicKeyMsg_def signed_request_payload sample_env_fields
      sample_parseString_def sample_parseSignature_def sample_ParsePublicKey_def
      ssh_rsa_string msgUserAuthRequest_def alice_key_bytes)
     (simp add: signed_request_def publickey_request_def)

lemma alice_authorized_keys:
  "authorizedKeysHook sample_env sample_conf ''alice'' = Inr (wireString alice_key)"
  by (simp add: authorizedKeysHook_def sample_conf_def fetchAuthorizedKeysFromHomeDir_def
      read_def ReadFile_def userSpecFile_def sample_env_fields userAuthorizedKeysFile_def
      sample_fs_def alice_key_def)

lemma alice_registered:
  "checkPublicKeyRegistration sample_env (wireString alice_key) (sample_key ''ssh-rsa'' alice_key)
     = Some (True, None)"
  by (simp add: checkPublicKeyRegistration.simps sample_env_fields sample_ParseAuthorizedKey_def
      sample_ParsePublicKey_def sample_parseString_def alice_key_bytes wireString_def be32_def
      ssh_rsa_string sample_key_def)

lemma alice_signature_verifies:
  "VerifySignature sample_env (sample_conn rnd up upw down downw) signed_request
       (sample_key ''ssh-rsa'' alice_key) \<lparr>Format = ''ssh-rsa'', Blob = [55]\<rparr>
     = (True, None)"
  by (simp add: VerifySignature_def sample_env_fields sample_key_def sample_conn_def
      sample_buildDataSignedForAuth_def signed_request_def publickey_request_def
      alice_key_bytes wireString_def be32_def ssh_rsa_bytes bytes_of_string_def
      serviceSSH_def msgUserAuthRequest_def sample_mac_def)



(* value "map_sum id (\<lambda>(k, q, s). (pk_Type k, pk_Marshal k, q, s)) (parsePublicKeyMsg sample_env signed_request)" *)

lemma signed_request_fields:
  "User signed_request = ''alice''" "Method signed_request = ''publickey''"
  by (simp_all add: signed_request_def publickey_request_def)

lemma proxy_key_bytes: "proxy_key = [0, 0, 0, 7, 115, 115, 104, 45, 114, 115, 97, 9]"
  by (simp add: proxy_key_def wireString_def be32_def ssh_rsa_bytes)

lemma alice_private_key: "fetchPrivateKey sample_env sample_conf ''alice'' = Inr [9]"
  by (simp add: fetchPrivateKey_def sample_conf_def fetchPrivateKeyFromHomeDir_def
      read_def ReadFile_def userSpecFile_def sample_env_fields userPrivateKeyFile_def
      sample_fs_def)

lemma publickey_string: "string_of_bytes [112, 117, 98, 108, 105, 99, 107, 101, 121] = ''publickey''"
  by code_simp

lemma alice_string: "string_of_bytes [97, 108, 105, 99, 101] = ''alice''"
  by code_simp

lemma service_string:
  "string_of_bytes [115, 115, 104, 45, 99, 111, 110, 110, 101, 99, 116, 105, 111, 110]
     = ''ssh-connection''"
  by code_simp

lemma resigned_payload:
  "publickey_payload 1 proxy_key (signature_field 63) =
     [1, 0, 0, 0, 7, 115, 115, 104, 45, 114, 115, 97, 0, 0, 0, 12, 0, 0,
      0, 7, 115, 115, 104, 45, 114, 115, 97, 9, 0, 0, 0, 16, 0, 0, 0, 7,
      115, 115, 104, 45, 114, 115, 97, 0, 0, 0, 1, 63]"
  by (simp add: publickey_payload_def signature_field_def proxy_key_bytes wireString_def
      be32_def ssh_rsa_bytes)

lemma sign_again_sample:
  "signAgain sample_env (sample_conn rnd up upw down downw) ''alice'' msg (sample_signer [9]) =
     (if rnd = 0 then (None, Some (ErrExternal ''random source''))
      else (Some (publickey_request (publickey_payload 1 proxy_key (signature_field 63))), None))"
  by (simp add: signAgain_def Let_def sample_env_fields sample_env_sel sample_signer_def sample_key_def
      sample_conn_def sample_buildDataSignedForAuth_def sample_Marshal_publickey_def
      sample_Unmarshal_request_def sample_parseString_def
      wireString_def be32_def ssh_rsa_bytes bytes_of_string_def
      serviceSSH_def msgUserAuthRequest_def sample_mac_def
      publickey_string alice_string service_string resigned_payload publickey_request_def)

lemma resign_sample:
  "resign sample_env sample_conf (sample_conn rnd up upw down downw) ''alice'' msg =
     (if rnd = 0 then (sample_conn rnd up upw down downw, Panic NilDereference)
      else (sample_conn rnd up upw down downw,
            Return (Some (publickey_request (publickey_payload 1 proxy_key (signature_field 63))),
                    None)))"
proof -
  have u: "conn_User (sample_conn rnd up upw down downw) = ''alice''"
    by (simp add: sample_conn_def)
  show ?thesis
    by (simp add: resign_def u alice_private_key sample_env_fields sample_ParsePrivateKey_def
        signLoop_def sign_again_sample failureExit_def)
qed

lemma handle_signed_request:
  "handleAuthMsg sample_env sample_conf (sample_conn rnd up upw down downw) signed_request =
     Some (if rnd = 0 then (sample_conn rnd up upw down downw, Panic NilDereference)
           else (sample_conn rnd up upw down downw,
                 Return (Some (publickey_request
                    (publickey_payload 1 proxy_key (signature_field 63))), None)))"
  by (simp add: handleAuthMsg_def signed_request_fields parse_signed_request
      alice_authorized_keys alice_registered alice_signature_verifies resign_sample)

lemma mallory_key_bytes: "mallory_key = [0, 0, 0, 7, 115, 115, 104, 45, 114, 115, 97, 8]"
  by (simp add: mallory_key_def wireString_def be32_def ssh_rsa_bytes)

lemma mallory_request_fields:
  "User mallory_request = ''alice''" "Method mallory_request = ''publickey''"
  by (simp_all add: mallory_request_def publickey_request_def)

lemma parse_mallory_request:
  "parsePublicKeyMsg sample_env mallory_request =
     Inr (sample_key ''ssh-rsa'' mallory_key, False, Some \<lparr>Format = ''ssh-rsa'', Blob = [0]\<rparr>)"
  by (simp add: parsePublicKeyMsg_def mallory_request_def publickey_request_def
      publickey_payload_def signature_field_def wireString_def be32_def ssh_rsa_bytes
      sample_env_fields sample_parseString_def sample_parseSignature_def
      sample_ParsePublicKey_def ssh_rsa_string msgUserAuthRequest_def mallory_key_bytes)

lemma mallory_not_registered:
  "checkPublicKeyRegistration sample_env (wireString alice_key)
     (sample_key ''ssh-rsa'' mallory_key) = Some (False, None)"
  by (simp add: checkPublicKeyRegistration.simps sample_env_fields sample_ParseAuthorizedKey_def
      sample_ParsePublicKey_def sample_parseString_def alice_key_bytes mallory_key_bytes
      wireString_def be32_def ssh_rsa_string sample_key_def)

lemma parse_query_request:
  "parsePublicKeyMsg sample_env query_request = Inr (sample_key ''ssh-rsa'' alice_key, True, None)"
  by (simp add: parsePublicKeyMsg_def query_request_def publickey_request_def
      publickey_payload_def wireString_def be32_def ssh_rsa_bytes
      sample_env_fields sample_parseString_def
      sample_ParsePublicKey_def ssh_rsa_string msgUserAuthRequest_def alice_key_bytes)

lemma sample_parseString_shorter:
  "sample_parseString inp = Some (s, rest) \<Longrightarrow> length rest < length inp"
  by (auto simp: sample_parseString_def Let_def split: list.splits if_splits)

lemma sample_parser_progress:
  "\<forall>inp key rest. ParseAuthorizedKey sample_env inp = Inr (key, rest)
     \<longrightarrow> length rest < length inp"
  by (auto simp: sample_env_fields sample_ParseAuthorizedKey_def
      split: option.splits sum.splits dest: sample_parseString_shorter)

lemma second_entry_matches:
  "checkPublicKeyRegistration sample_env (wireString mallory_key @ wireString alice_key)
     (sample_key ''ssh-rsa'' alice_key) = Some (True, None)"
  by (simp add: checkPublicKeyRegistration.simps sample_env_fields sample_ParseAuthorizedKey_def
      sample_ParsePublicKey_def sample_parseString_def alice_key_bytes mallory_key_bytes
      wireString_def be32_def ssh_rsa_string sample_key_def)

lemma password_string: "string_of_bytes [112, 97, 115, 115, 119, 111, 114, 100] = ''password''"
  by code_simp

lemma send_auth_req_sample:
  "sendAuthReq sample_env (Upstream (sample_conn rnd (Inr accept_packet # up) upw down downw)) =
     (None, Upstream (sample_conn rnd up (upw @ [service_request_packet]) down downw))"
  by (simp add: sendAuthReq_def sample_env_def sample_conn_def writePacket_def readPacket_def
      accept_packet_def service_request_packet_def sample_Unmarshal_serviceAccept_def
      sample_parseString_def msgServiceAccept_def msgServiceRequest_def serviceUserAuth_def
      wireString_def be32_def bytes_of_string_def)

lemma handle_password_request:
  "handleAuthMsg sample_env sample_conf p password_request =
     Some (p, Return (Some password_request, None))"
  by (simp add: handleAuthMsg_def password_request_def)

lemma relay_failure_sample:
  "bridgeStep sample_env (sample_conn rnd (Inr failure_packet # up) upw down downw) (Some m) =
     (sample_conn rnd up (upw @ [sample_Marshal_request m]) down (downw @ [failure_packet]),
      Proceed)"
  by (simp add: bridgeStep_def checkBridgeAuthWithNoBanner_def sample_conn_def writePacket_def
      readPacket_def relayLoop.simps failure_packet_def sample_env_sel
      msgUserAuthSuccess_def msgUserAuthBanner_def)

lemma unmarshal_password_request:
  "sample_Unmarshal_request (sample_Marshal_request password_request) = Inr password_request"
  by (simp add: marshal_password_request sample_Unmarshal_request_def sample_parseString_def
      msgUserAuthRequest_def alice_string service_string password_string)
     (simp add: password_request_def serviceSSH_def)

lemma next_request_sample:
  "nextRequest sample_env
       (sample_conn rnd up upw (Inr (sample_Marshal_request password_request) # down) downw) =
     (sample_conn rnd up upw down downw, Return (Inr password_request))"
  using unmarshal_password_request
  by (simp add: nextRequest_def readPacket_def sample_conn_def sample_env_sel
      marshal_password_request msgUserAuthRequest_def)

subsection \<open>Authorization gating\<close>

text \<open>
  Claim C1. Whenever \<^verbatim>\<open>handleAuthMsg\<close> returns a request whose method is
  \<^verbatim>\<open>publickey\<close>, the guard holds for the request it was given: the key is in the
  authorized keys of the user (the matcher returned true) and the downstream
  signature verified. On every path of the publickey branch where the guard does not
  hold, the function returns no message (with or without an error) or the
  \<^verbatim>\<open>none\<close> request of the user. What the bridge step then writes to the upstream
  transport is the \<^verbatim>\<open>Marshal\<close> of the returned message and nothing else, and nothing
  when no message is returned.
\<close>

theorem authorization_gating:
  assumes "handleAuthMsg e proxyConf p msg = Some (p', r)"
  shows "(\<forall>m' err. r = Return (Some m', err) \<and> Method m' = ''publickey''
            \<longrightarrow> gated e proxyConf p msg)
    \<and> (Method msg = ''publickey'' \<and> \<not> gated e proxyConf p msg
            \<longrightarrow> (\<exists>err. r = Return (None, err))
               \<or> r = Return (Some (noneAuthMsg (User msg)), None))
    \<and> (\<forall>mo err. r = Return (mo, err) \<longrightarrow>
          writes (Upstream (fst (bridgeStep e p' mo))) =
            writes (Upstream p)
              @ (case mo of None \<Rightarrow> [] | Some m \<Rightarrow> [Marshal_userAuthRequestMsg e m]))"
proof (intro conjI allI impI)
  fix m' err
  assume a: "r = Return (Some m', err) \<and> Method m' = ''publickey''"
  show "gated e proxyConf p msg"
  proof (cases "Method msg = ''publickey''")
    case True
    from handleAuthMsg_publickey_cases [OF True assms] a show ?thesis
      by (auto simp: noneAuthMsg_def)
  next
    case False
    with assms a show ?thesis
      by (auto simp: handleAuthMsg_def split: if_splits)
  qed
next
  assume "Method msg = ''publickey'' \<and> \<not> gated e proxyConf p msg"
  with handleAuthMsg_publickey_cases [OF _ assms]
  show "(\<exists>err. r = Return (None, err)) \<or> r = Return (Some (noneAuthMsg (User msg)), None)"
    by blast
next
  fix mo err
  assume "r = Return (mo, err)"
  have u: "Upstream p' = Upstream p"
    using handleAuthMsg_upstream [OF assms] .
  show "writes (Upstream (fst (bridgeStep e p' mo))) =
      writes (Upstream p) @ (case mo of None \<Rightarrow> [] | Some m \<Rightarrow> [Marshal_userAuthRequestMsg e m])"
  proof (cases mo)
    case None
    then show ?thesis by (simp add: bridgeStep_def u)
  next
    case (Some m)
    then show ?thesis by (simp add: bridgeStep_upstream_writes u)
  qed
qed

theorem authorization_gating_witness:
  "handleAuthMsg sample_env sample_conf (sample_conn 1 [] [] [] []) signed_request =
     Some (sample_conn 1 [] [] [] [],
           Return (Some (publickey_request (publickey_payload 1 proxy_key (signature_field 63))),
                   None))
   \<and> Method (publickey_request (publickey_payload 1 proxy_key (signature_field 63))) = ''publickey''
   \<and> gated sample_env sample_conf (sample_conn 1 [] [] [] []) signed_request
   \<and> writes (Upstream (fst (bridgeStep sample_env (sample_conn 1 [] [] [] [])
         (Some (publickey_request (publickey_payload 1 proxy_key (signature_field 63))))))) =
       [sample_Marshal_request
          (publickey_request (publickey_payload 1 proxy_key (signature_field 63)))]
   \<and> handleAuthMsg sample_env sample_conf (sample_conn 1 [] [] [] []) mallory_request =
       Some (sample_conn 1 [] [] [] [], Return (Some (noneAuthMsg ''alice''), None))
   \<and> Method mallory_request = ''publickey''
   \<and> \<not> gated sample_env sample_conf (sample_conn 1 [] [] [] []) mallory_request"
proof -
  let ?p = "sample_conn 1 [] [] [] []"
  let ?m = "publickey_request (publickey_payload 1 proxy_key (signature_field 63))"
  have h: "handleAuthMsg sample_env sample_conf ?p signed_request =
      Some (?p, Return (Some ?m, None))"
    by (simp add: handle_signed_request)
  have m: "Method ?m = ''publickey''"
    by (simp add: publickey_request_def)
  have w: "writes (Upstream ?p) = []"
    by (simp add: sample_conn_def)
  have h': "handleAuthMsg sample_env sample_conf ?p mallory_request =
      Some (?p, Return (Some (noneAuthMsg ''alice''), None))"
    by (simp add: handleAuthMsg_def mallory_request_fields parse_mallory_request
        alice_authorized_keys mallory_not_registered)
  have n: "\<not> gated sample_env sample_conf ?p mallory_request"
    by (simp add: gated_def mallory_request_fields parse_mallory_request
        alice_authorized_keys mallory_not_registered)
  from authorization_gating [OF h] authorization_gating [OF h'] h m w h' n
  show ?thesis
    by (simp add: mallory_request_fields sample_env_sel)
qed

subsection \<open>Session binding\<close>

text \<open>
  Claim C2. The data over which \<^verbatim>\<open>VerifySignature\<close> verifies the downstream
  signature is built from the session identifier of the downstream transport, and
  the function does not depend on the upstream transport at all. The data that
  \<^verbatim>\<open>signAgain\<close> gives to the signer is built from the session identifier of the
  upstream transport, and the function does not depend on the downstream transport
  at all.
\<close>

theorem session_binding:
  "VerifySignature e p msg key sg =
     (if isAcceptableAlgo e (Format sg)
      then (pk_Verify key
              (buildDataSignedForAuth e (sessionID (Downstream p)) msg
                 (bytes_of_string (pk_Type key)) (pk_Marshal key)) sg = None, None)
      else (False, Some (ErrAlgoNotAccepted (Format sg))))
   \<and> VerifySignature e (p\<lparr>Upstream := u\<rparr>) msg key sg = VerifySignature e p msg key sg
   \<and> fst (signAgain e p user msg signer) =
       (case sg_Sign signer (Rand (Upstream p))
               (buildDataSignedForAuth e (sessionID (Upstream p))
                  \<lparr>User = user, Service = serviceSSH, Method = ''publickey'', Payload = []\<rparr>
                  (bytes_of_string (pk_Type (sg_PublicKey signer)))
                  (pk_Marshal (sg_PublicKey signer))) of
          Inl err \<Rightarrow> None
        | Inr sign \<Rightarrow>
            (case Unmarshal_userAuthRequestMsg e
                    (Marshal_publickeyAuthMsg e
                       \<lparr>pka_User = user, pka_Service = serviceSSH, pka_Method = ''publickey'',
                        HasSig = True, Algoname = pk_Type (sg_PublicKey signer),
                        PubKey = pk_Marshal (sg_PublicKey signer),
                        Sig = marshalString e (Marshal_Signature e sign)\<rparr>) of
               Inl err \<Rightarrow> None
             | Inr msg' \<Rightarrow> Some msg'))
   \<and> signAgain e (p\<lparr>Downstream := d\<rparr>) user msg signer = signAgain e p user msg signer"
  by (simp add: VerifySignature_def signAgain_def Let_def split: sum.splits)

theorem session_binding_witness:
  "VerifySignature sample_env (sample_conn 1 [] [] [] []) signed_request
       (sample_key ''ssh-rsa'' alice_key) \<lparr>Format = ''ssh-rsa'', Blob = [55]\<rparr> = (True, None)
   \<and> VerifySignature sample_env
       ((sample_conn 1 [] [] [] [])\<lparr>Upstream := Downstream (sample_conn 1 [] [] [] []),
                                     Downstream := Upstream (sample_conn 1 [] [] [] [])\<rparr>)
       signed_request (sample_key ''ssh-rsa'' alice_key)
       \<lparr>Format = ''ssh-rsa'', Blob = [55]\<rparr> = (False, None)"
proof -
  have a: "isAcceptableAlgo sample_env (Format \<lparr>Format = ''ssh-rsa'', Blob = [55]\<rparr>)"
    by (simp add: sample_env_fields)
  have s: "sessionID (Downstream (sample_conn 1 [] [] [] [])) = [1, 2]"
    "sessionID (Upstream (sample_conn 1 [] [] [] [])) = [3, 4]"
    by (simp_all add: sample_conn_def)
  have v: "pk_Verify (sample_key ''ssh-rsa'' alice_key)
      (buildDataSignedForAuth sample_env [1, 2] signed_request
         (bytes_of_string (pk_Type (sample_key ''ssh-rsa'' alice_key)))
         (pk_Marshal (sample_key ''ssh-rsa'' alice_key)))
      \<lparr>Format = ''ssh-rsa'', Blob = [55]\<rparr> = None"
    by (simp add: sample_env_fields sample_key_def
      sample_buildDataSignedForAuth_def signed_request_def publickey_request_def
      alice_key_bytes wireString_def be32_def ssh_rsa_bytes bytes_of_string_def
      serviceSSH_def msgUserAuthRequest_def sample_mac_def)
  have w: "pk_Verify (sample_key ''ssh-rsa'' alice_key)
      (buildDataSignedForAuth sample_env [3, 4] signed_request
         (bytes_of_string (pk_Type (sample_key ''ssh-rsa'' alice_key)))
         (pk_Marshal (sample_key ''ssh-rsa'' alice_key)))
      \<lparr>Format = ''ssh-rsa'', Blob = [55]\<rparr> \<noteq> None"
    by (simp add: sample_env_fields sample_key_def
      sample_buildDataSignedForAuth_def signed_request_def publickey_request_def
      alice_key_bytes wireString_def be32_def ssh_rsa_bytes bytes_of_string_def
      serviceSSH_def msgUserAuthRequest_def sample_mac_def)
  show ?thesis
    using a v w s
    by (simp add: session_binding [THEN conjunct1])
qed

subsection \<open>File permissions\<close>

text \<open>
  Claim C3 says that a key file with a bit of octal 077 in its mode is refused
  without being read. \<^verbatim>\<open>checkPermission\<close> does refuse such a file, but no function
  of the file calls it: \<^verbatim>\<open>read\<close> returns the contents of a file whatever its mode,
  and so do the default reader of the authorized keys and the default reader of the
  private key.
\<close>

theorem read_ignores_permission:
  assumes "fs e (userSpecFile e user file) = Inr f"
    and "mode f AND 0x3F \<noteq> 0"
  shows "checkPermission e file user = Some (ErrPermTooOpen (userSpecFile e user file))
    \<and> read e file user = Inr (contents f)
    \<and> (file = userAuthorizedKeysFile \<and> FetchAuthorizedKeysHook proxyConf = None
         \<longrightarrow> authorizedKeysHook e proxyConf user = Inr (contents f))
    \<and> (file = userPrivateKeyFile \<and> \<not> UseMasterKey proxyConf
           \<and> FetchPrivateKeyHook proxyConf = None
         \<longrightarrow> fetchPrivateKey e proxyConf user = Inr (contents f))"
  using assms
  by (auto simp: checkPermission_def perm_mask read_def ReadFile_def authorizedKeysHook_def
      fetchAuthorizedKeysFromHomeDir_def fetchPrivateKey_def fetchPrivateKeyFromHomeDir_def)

theorem read_ignores_permission_witness:
  "fs sample_env (userSpecFile sample_env ''alice'' userAuthorizedKeysFile) =
     Inr \<lparr>mode = 0x1A4, contents = wireString alice_key\<rparr>
   \<and> (0x1A4 :: 32 word) AND 0x3F \<noteq> 0
   \<and> checkPermission sample_env userAuthorizedKeysFile ''alice'' =
       Some (ErrPermTooOpen ''/home/alice/.ssh/authorized_keys'')
   \<and> read sample_env userAuthorizedKeysFile ''alice'' = Inr (wireString alice_key)
   \<and> authorizedKeysHook sample_env sample_conf ''alice'' = Inr (wireString alice_key)
   \<and> handleAuthMsg sample_env sample_conf (sample_conn 1 [] [] [] []) signed_request =
       Some (sample_conn 1 [] [] [] [],
             Return (Some (publickey_request (publickey_payload 1 proxy_key (signature_field 63))),
                     None))"
proof -
  have p: "userSpecFile sample_env ''alice'' userAuthorizedKeysFile =
      ''/home/alice/.ssh/authorized_keys''"
    by (simp add: userSpecFile_def sample_env_fields userAuthorizedKeysFile_def)
  have a: "fs sample_env (userSpecFile sample_env ''alice'' userAuthorizedKeysFile) =
      Inr \<lparr>mode = 0x1A4, contents = wireString alice_key\<rparr>"
    by (simp add: p sample_env_fields sample_fs_def alice_key_def)
  have b: "mode \<lparr>mode = 0x1A4, contents = wireString alice_key\<rparr> AND 0x3F \<noteq> 0"
    by simp
  have n: "FetchAuthorizedKeysHook sample_conf = None"
    by (simp add: sample_conf_def)
  from read_ignores_permission [OF a b, of sample_conf] a b n p
  show ?thesis
    by (simp add: handle_signed_request)
qed

subsection \<open>The query short-circuit\<close>

text \<open>
  Claim C4. A publickey request that parses and whose payload starts with the byte
  0 makes \<^verbatim>\<open>handleAuthMsg\<close> write one packet to the downstream transport, the
  \<^verbatim>\<open>USERAUTH_PK_OK\<close> message with the type and the marshaled blob of the key, and
  return no message. The upstream transport is untouched, the bridge step does
  nothing, and the loop goes on with the next-request phase.
\<close>

theorem query_short_circuit:
  assumes "parsePublicKeyMsg e msg = Inr (key, q, sg)"
    and "Payload msg = 0 # rest"
  shows "\<exists>p' err.
      handleAuthMsg e proxyConf p msg = Some (p', Return (None, err))
    \<and> writes (Downstream p') = writes (Downstream p)
         @ [Marshal_userAuthPubKeyOkMsg e \<lparr>ok_Algo = pk_Type key, ok_PubKey = pk_Marshal key\<rparr>]
    \<and> Upstream p' = Upstream p
    \<and> bridgeStep e p' None = (p', Proceed)
    \<and> authLoop e proxyConf p msg =
        (case nextRequest e p' of
           (p3, Panic k) \<Rightarrow> Some (p3, Panic k)
         | (p3, Return (Inl err)) \<Rightarrow> Some (p3, Return (Some err))
         | (p3, Return (Inr userAuthReq)) \<Rightarrow> authLoop e proxyConf p3 userAuthReq)"
proof -
  let ?ok = "Marshal_userAuthPubKeyOkMsg e \<lparr>ok_Algo = pk_Type key, ok_PubKey = pk_Marshal key\<rparr>"
  let ?p' = "p\<lparr>Downstream := snd (writePacket (Downstream p) ?ok)\<rparr>"
  let ?err = "fst (writePacket (Downstream p) ?ok)"
  from parsePublicKeyMsg_Inr [OF assms(1)] assms(2)
  have m: "Method msg = ''publickey''" and q: "q" by simp_all
  have h: "handleAuthMsg e proxyConf p msg = Some (?p', Return (None, ?err))"
    using m q assms(1)
    by (auto simp: handleAuthMsg_def sendOKMsg_def Let_def split: prod.splits option.splits)
  have w: "writes (Downstream ?p') = writes (Downstream p) @ [?ok]"
    by (simp add: writePacket_writes)
  have b: "bridgeStep e ?p' None = (?p', Proceed)"
    by (simp add: bridgeStep_def)
  have l: "authLoop e proxyConf p msg =
        (case nextRequest e ?p' of
           (p3, Panic k) \<Rightarrow> Some (p3, Panic k)
         | (p3, Return (Inl err)) \<Rightarrow> Some (p3, Return (Some err))
         | (p3, Return (Inr userAuthReq)) \<Rightarrow> authLoop e proxyConf p3 userAuthReq)"
    by (subst authLoop.simps) (simp add: h b)
  from h w b l show ?thesis
    by (intro exI [of _ ?p'] exI [of _ ?err]) simp
qed

theorem query_short_circuit_witness:
  "parsePublicKeyMsg sample_env query_request = Inr (sample_key ''ssh-rsa'' alice_key, True, None)
   \<and> Payload query_request = 0 # wireString (bytes_of_string ''ssh-rsa'') @ wireString alice_key
   \<and> (\<exists>p' err.
        handleAuthMsg sample_env sample_conf (sample_conn 1 [] [] [] []) query_request =
          Some (p', Return (None, err))
        \<and> writes (Downstream p') =
            [[60, 0, 0, 0, 7, 115, 115, 104, 45, 114, 115, 97,
              0, 0, 0, 12, 0, 0, 0, 7, 115, 115, 104, 45, 114, 115, 97, 7]]
        \<and> writes (Upstream p') = []
        \<and> bridgeStep sample_env p' None = (p', Proceed))"
proof -
  have a: "Payload query_request =
      0 # (wireString (bytes_of_string ''ssh-rsa'') @ wireString alice_key)"
    by (simp add: query_request_def publickey_request_def publickey_payload_def)
  have k: "Marshal_userAuthPubKeyOkMsg sample_env
        \<lparr>ok_Algo = pk_Type (sample_key ''ssh-rsa'' alice_key),
         ok_PubKey = pk_Marshal (sample_key ''ssh-rsa'' alice_key)\<rparr> =
      [60, 0, 0, 0, 7, 115, 115, 104, 45, 114, 115, 97,
       0, 0, 0, 12, 0, 0, 0, 7, 115, 115, 104, 45, 114, 115, 97, 7]"
    by (simp add: sample_env_def sample_key_def alice_key_bytes wireString_def be32_def
        ssh_rsa_bytes msgUserAuthPubKeyOk_def)
  have u: "Upstream (sample_conn 1 [] [] [] []) =
      \<lparr>sessionID = [3, 4], Rand = 1, incoming = [], writes = [], writeResults = []\<rparr>"
    and d: "writes (Downstream (sample_conn 1 [] [] [] [])) = []"
    by (simp_all add: sample_conn_def)
  from query_short_circuit [OF parse_query_request a, of sample_conf "sample_conn 1 [] [] [] []"]
  obtain p' err where
    "handleAuthMsg sample_env sample_conf (sample_conn 1 [] [] [] []) query_request =
       Some (p', Return (None, err))"
    "writes (Downstream p') =
       [[60, 0, 0, 0, 7, 115, 115, 104, 45, 114, 115, 97,
         0, 0, 0, 12, 0, 0, 0, 7, 115, 115, 104, 45, 114, 115, 97, 7]]"
    "writes (Upstream p') = []"
    "bridgeStep sample_env p' None = (p', Proceed)"
    unfolding k u d by auto
  with parse_query_request a show ?thesis
    by auto
qed

subsection \<open>A failure of the re-signing\<close>

text \<open>
  Claim C5 says that a failure of the re-signing sends a failure message downstream
  and awaits the next request. In the code the assignment
  \<^verbatim>\<open>msg, err = p.signAgain(...)\<close> sets \<^verbatim>\<open>msg\<close> to \<^verbatim>\<open>nil\<close> when \<^verbatim>\<open>signAgain\<close> fails, and
  \<^verbatim>\<open>msg.Method\<close> at line 124 then panics: after the guard has passed, an error of
  \<^verbatim>\<open>signAgain\<close> for the first signer ends \<^verbatim>\<open>handleAuthMsg\<close> in a nil dereference,
  with the connection as it was, so that no failure message has been written.
\<close>

theorem resign_failure_panics:
  assumes "gated e proxyConf p msg"
    and "fetchPrivateKey e proxyConf (conn_User p) = Inr privateBytes"
    and "ParsePrivateKey e privateBytes = Inr (Some signer)"
    and "PublicKeys e signer = publicKeyCallback f"
    and "f () = Inr (s # ss)"
    and "snd (signAgain e p (User msg) msg s) = Some err"
  shows "handleAuthMsg e proxyConf p msg = Some (p, Panic NilDereference)"
proof -
  obtain mo where sa: "signAgain e p (User msg) msg s = (mo, Some err)"
    using assms(6) by (cases "signAgain e p (User msg) msg s") auto
  from signAgain_error [OF sa] sa
  have "signLoop e p (User msg) msg (s # ss) = (p, Panic NilDereference)"
    by (simp add: signLoop_def failureExit_def)
  with assms(2-5)
  have r: "resign e proxyConf p (User msg) msg = (p, Panic NilDereference)"
    by (simp add: resign_def)
  from assms(1) obtain key q sgo where parse': "parsePublicKeyMsg e msg = Inr (key, q, sgo)"
    by (cases "parsePublicKeyMsg e msg") (auto simp: gated_def)
  with assms(1) obtain sg where parse: "parsePublicKeyMsg e msg = Inr (key, q, Some sg)"
    by (cases sgo) (auto simp: gated_def)
  with assms(1) obtain authKeys where
    hook: "authorizedKeysHook e proxyConf (User msg) = Inr authKeys"
    by (cases "authorizedKeysHook e proxyConf (User msg)") (auto simp: gated_def)
  with assms(1) parse
  have reg: "checkPublicKeyRegistration e authKeys key = Some (True, None)"
    and ver: "VerifySignature e p msg key sg = (True, None)"
    by (simp_all add: gated_def)
  from parsePublicKeyMsg_Inr [OF parse] have "Method msg = ''publickey''" and "\<not> q"
    by simp_all
  with parse hook reg ver r show ?thesis
    by (simp add: handleAuthMsg_def)
qed

theorem resign_failure_panics_witness:
  "gated sample_env sample_conf (sample_conn 0 [] [] [] []) signed_request
   \<and> fetchPrivateKey sample_env sample_conf ''alice'' = Inr [9]
   \<and> signAgain sample_env (sample_conn 0 [] [] [] []) ''alice'' signed_request
        (sample_signer [9]) = (None, Some (ErrExternal ''random source''))
   \<and> handleAuthMsg sample_env sample_conf (sample_conn 0 [] [] [] []) signed_request =
       Some (sample_conn 0 [] [] [] [], Panic NilDereference)
   \<and> writes (Downstream (sample_conn 0 [] [] [] [])) = []"
proof -
  let ?p = "sample_conn 0 [] [] [] []"
  have g: "gated sample_env sample_conf ?p signed_request"
    by (simp add: gated_def parse_signed_request signed_request_fields alice_authorized_keys
        alice_registered alice_signature_verifies)
  have k: "fetchPrivateKey sample_env sample_conf (conn_User ?p) = Inr [9]"
    by (simp add: alice_private_key sample_conn_def)
  have s: "ParsePrivateKey sample_env [9] = Inr (Some (sample_signer [9]))"
    by (simp add: sample_env_fields sample_ParsePrivateKey_def)
  have c: "PublicKeys sample_env (sample_signer [9]) =
      publicKeyCallback (\<lambda>_. Inr [sample_signer [9]])"
    by (simp add: sample_env_fields)
  have f: "(\<lambda>_. Inr [sample_signer [9]]) () = (Inr (sample_signer [9] # []) :: error + Signer list)"
    by simp
  have a: "signAgain sample_env ?p ''alice'' signed_request (sample_signer [9]) =
      (None, Some (ErrExternal ''random source''))"
    by (simp add: sign_again_sample)
  then have e: "snd (signAgain sample_env ?p (User signed_request) signed_request
      (sample_signer [9])) = Some (ErrExternal ''random source'')"
    by (simp add: signed_request_fields)
  from resign_failure_panics [OF g k s c f e] g alice_private_key a
  show ?thesis
    by (simp add: sample_conn_def)
qed

subsection \<open>Passthrough\<close>

text \<open>
  Claim C6. A request whose method is not \<^verbatim>\<open>publickey\<close> (\<^verbatim>\<open>password\<close> included) is
  returned by \<^verbatim>\<open>handleAuthMsg\<close> as it is, with the connection untouched, and the one
  packet the bridge step writes to the upstream transport is the \<^verbatim>\<open>Marshal\<close> of that
  request.
\<close>

theorem passthrough_fidelity:
  assumes "Method msg \<noteq> ''publickey''"
  shows "handleAuthMsg e proxyConf p msg = Some (p, Return (Some msg, None))
    \<and> writes (Upstream (fst (bridgeStep e p (Some msg)))) =
        writes (Upstream p) @ [Marshal_userAuthRequestMsg e msg]"
  using assms by (simp add: handleAuthMsg_def bridgeStep_upstream_writes)

theorem passthrough_fidelity_witness:
  "Method password_request \<noteq> ''publickey''
   \<and> handleAuthMsg sample_env sample_conf (sample_conn 1 [] [] [] []) password_request =
       Some (sample_conn 1 [] [] [] [], Return (Some password_request, None))
   \<and> writes (Upstream (fst (bridgeStep sample_env (sample_conn 1 [] [] [] [])
         (Some password_request)))) =
       [[50, 0, 0, 0, 5, 97, 108, 105, 99, 101,
         0, 0, 0, 14, 115, 115, 104, 45, 99, 111, 110, 110, 101, 99, 116, 105, 111, 110,
         0, 0, 0, 8, 112, 97, 115, 115, 119, 111, 114, 100,
         0, 0, 0, 0, 2, 112, 119]]"
proof -
  have h: "Method password_request \<noteq> ''publickey''"
    by (simp add: password_request_def)
  from passthrough_fidelity [OF h, of sample_env sample_conf "sample_conn 1 [] [] [] []"] h
  show ?thesis
    by (simp add: sample_env_sel marshal_password_request) (simp add: sample_conn_def)
qed

subsection \<open>The verdict of the matcher\<close>

text \<open>
  Claim C7. With a parser that consumes input on every entry it returns,
  \<^verbatim>\<open>checkPublicKeyRegistration\<close> returns, and its result is the verdict of the
  specification on the entries parsed in sequence: true exactly when an entry has the
  marshaled form of the candidate, false without error exactly when every entry is a
  key other than the candidate, and the error of the entry that does not parse
  exactly when no entry before it is the candidate.
\<close>

theorem matcher_first_match:
  assumes progress:
    "\<forall>inp key rest. ParseAuthorizedKey e inp = Inr (key, rest) \<longrightarrow> length rest < length inp"
  shows "checkPublicKeyRegistration e authKeys publicKey =
      Some (matcherSpec (pk_Marshal publicKey) (parsedEntries e (length authKeys) authKeys))
    \<and> (checkPublicKeyRegistration e authKeys publicKey = Some (True, None) \<longleftrightarrow>
         (\<exists>key. Inr key \<in> set (parsedEntries e (length authKeys) authKeys)
            \<and> pk_Marshal key = pk_Marshal publicKey))
    \<and> (checkPublicKeyRegistration e authKeys publicKey = Some (False, None) \<longleftrightarrow>
         (\<forall>x \<in> set (parsedEntries e (length authKeys) authKeys).
            \<exists>key. x = Inr key \<and> pk_Marshal key \<noteq> pk_Marshal publicKey))
    \<and> (checkPublicKeyRegistration e authKeys publicKey = Some (False, Some err) \<longleftrightarrow>
         Inl err \<in> set (parsedEntries e (length authKeys) authKeys)
         \<and> \<not> (\<exists>key. Inr key \<in> set (parsedEntries e (length authKeys) authKeys)
                \<and> pk_Marshal key = pk_Marshal publicKey))"
proof -
  have r: "checkPublicKeyRegistration e authKeys publicKey =
      Some (matcherSpec (pk_Marshal publicKey) (parsedEntries e (length authKeys) authKeys))"
    using progress by (intro matcher_fuel) auto
  show ?thesis
    unfolding r
    using matcherSpec_true_iff [of "pk_Marshal publicKey" e "length authKeys" authKeys]
      matcherSpec_false_iff [of "pk_Marshal publicKey" e "length authKeys" authKeys]
      matcherSpec_error_iff [of "pk_Marshal publicKey" e "length authKeys" authKeys err]
    by simp
qed

theorem matcher_first_match_witness:
  "checkPublicKeyRegistration sample_env (wireString mallory_key @ wireString alice_key)
     (sample_key ''ssh-rsa'' alice_key) = Some (True, None)
   \<and> (\<exists>key. Inr key \<in> set (parsedEntries sample_env
                 (length (wireString mallory_key @ wireString alice_key))
                 (wireString mallory_key @ wireString alice_key))
          \<and> pk_Marshal key = alice_key)
   \<and> checkPublicKeyRegistration sample_env (wireString alice_key)
        (sample_key ''ssh-rsa'' mallory_key) = Some (False, None)
   \<and> (\<forall>x \<in> set (parsedEntries sample_env (length (wireString alice_key))
                 (wireString alice_key)).
          \<exists>key. x = Inr key \<and> pk_Marshal key \<noteq> mallory_key) = True"
proof -
  have k: "pk_Marshal (sample_key ''ssh-rsa'' alice_key) = alice_key"
    "pk_Marshal (sample_key ''ssh-rsa'' mallory_key) = mallory_key"
    by (simp_all add: sample_key_def)
  from matcher_first_match [OF sample_parser_progress,
      where authKeys = "wireString mallory_key @ wireString alice_key"
        and publicKey = "sample_key ''ssh-rsa'' alice_key"]
    matcher_first_match [OF sample_parser_progress,
      where authKeys = "wireString alice_key"
        and publicKey = "sample_key ''ssh-rsa'' mallory_key"]
    second_entry_matches mallory_not_registered
  show ?thesis
    unfolding k by simp
qed

subsection \<open>An unreadable or unauthorized key\<close>

text \<open>
  Claim C8. For a signed publickey request, when fetching the authorized keys of
  the user fails, or when the matcher returns false or an error, \<^verbatim>\<open>handleAuthMsg\<close>
  returns the \<^verbatim>\<open>none\<close> request of that user (its user is the user of the request,
  its service \<^verbatim>\<open>ssh-connection\<close>, its payload empty) and leaves the connection as it was
  (nothing is written downstream), and the bridge step writes the \<^verbatim>\<open>Marshal\<close> of that
  \<^verbatim>\<open>none\<close> request to the upstream transport.
\<close>

theorem unauthorized_key_sends_none:
  assumes "parsePublicKeyMsg e msg = Inr (key, False, sg)"
    and "(\<exists>err. authorizedKeysHook e proxyConf (User msg) = Inl err)
       \<or> (\<exists>authKeys ok cerr. authorizedKeysHook e proxyConf (User msg) = Inr authKeys
            \<and> checkPublicKeyRegistration e authKeys key = Some (ok, cerr)
            \<and> (cerr \<noteq> None \<or> \<not> ok))"
  shows "handleAuthMsg e proxyConf p msg = Some (p, Return (Some (noneAuthMsg (User msg)), None))
    \<and> Method (noneAuthMsg (User msg)) = ''none''
    \<and> noneAuthMsg (User msg) =
        \<lparr>User = User msg, Service = serviceSSH, Method = ''none'', Payload = []\<rparr>
    \<and> writes (Upstream (fst (bridgeStep e p (Some (noneAuthMsg (User msg)))))) =
        writes (Upstream p) @ [Marshal_userAuthRequestMsg e (noneAuthMsg (User msg))]"
proof -
  from parsePublicKeyMsg_Inr [OF assms(1)]
  have m: "Method msg = ''publickey''" by simp
  have "handleAuthMsg e proxyConf p msg = Some (p, Return (Some (noneAuthMsg (User msg)), None))"
    using assms m by (auto simp: handleAuthMsg_def Let_def)
  then show ?thesis
    by (simp add: bridgeStep_upstream_writes noneAuthMsg_def)
qed

theorem unauthorized_key_sends_none_witness:
  "parsePublicKeyMsg sample_env mallory_request =
     Inr (sample_key ''ssh-rsa'' mallory_key, False, Some \<lparr>Format = ''ssh-rsa'', Blob = [0]\<rparr>)
   \<and> authorizedKeysHook sample_env sample_conf ''alice'' = Inr (wireString alice_key)
   \<and> checkPublicKeyRegistration sample_env (wireString alice_key)
        (sample_key ''ssh-rsa'' mallory_key) = Some (False, None)
   \<and> handleAuthMsg sample_env sample_conf (sample_conn 1 [] [] [] []) mallory_request =
       Some (sample_conn 1 [] [] [] [], Return (Some (noneAuthMsg ''alice''), None))
   \<and> noneAuthMsg ''alice'' =
       \<lparr>User = ''alice'', Service = ''ssh-connection'', Method = ''none'', Payload = []\<rparr>
   \<and> writes (Upstream (fst (bridgeStep sample_env (sample_conn 1 [] [] [] [])
         (Some (noneAuthMsg ''alice''))))) =
       [[50, 0, 0, 0, 5, 97, 108, 105, 99, 101, 0, 0, 0, 14, 115, 115, 104, 45, 99,
         111, 110, 110, 101, 99, 116, 105, 111, 110, 0, 0, 0, 4, 110, 111, 110, 101]]"
proof -
  have c: "(\<exists>err. authorizedKeysHook sample_env sample_conf (User mallory_request) = Inl err)
       \<or> (\<exists>authKeys ok cerr.
            authorizedKeysHook sample_env sample_conf (User mallory_request) = Inr authKeys
            \<and> checkPublicKeyRegistration sample_env authKeys (sample_key ''ssh-rsa'' mallory_key)
                = Some (ok, cerr)
            \<and> (cerr \<noteq> None \<or> \<not> ok))"
    using alice_authorized_keys mallory_not_registered
    by (auto simp: mallory_request_fields)
  have k: "Marshal_userAuthRequestMsg sample_env (noneAuthMsg ''alice'') =
      [50, 0, 0, 0, 5, 97, 108, 105, 99, 101, 0, 0, 0, 14, 115, 115, 104, 45, 99,
       111, 110, 110, 101, 99, 116, 105, 111, 110, 0, 0, 0, 4, 110, 111, 110, 101]"
    by (simp add: sample_env_sel sample_Marshal_request_def noneAuthMsg_def wireString_def
        be32_def bytes_of_string_def serviceSSH_def msgUserAuthRequest_def)
  let ?p = "sample_conn 1 [] [] [] []"
  have w: "writes (Upstream ?p) = []"
    by (simp add: sample_conn_def)
  from unauthorized_key_sends_none [OF parse_mallory_request c, of ?p]
  have h: "handleAuthMsg sample_env sample_conf ?p mallory_request =
      Some (?p, Return (Some (noneAuthMsg ''alice''), None))"
    and r: "noneAuthMsg ''alice'' =
      \<lparr>User = ''alice'', Service = serviceSSH, Method = ''none'', Payload = []\<rparr>"
    and u: "writes (Upstream (fst (bridgeStep sample_env ?p (Some (noneAuthMsg ''alice''))))) =
      writes (Upstream ?p) @ [Marshal_userAuthRequestMsg sample_env (noneAuthMsg ''alice'')]"
    unfolding mallory_request_fields by blast+
  have r': "noneAuthMsg ''alice'' =
      \<lparr>User = ''alice'', Service = ''ssh-connection'', Method = ''none'', Payload = []\<rparr>"
    using r by (simp only: serviceSSH_def)
  have u': "writes (Upstream (fst (bridgeStep sample_env ?p (Some (noneAuthMsg ''alice''))))) =
      [[50, 0, 0, 0, 5, 97, 108, 105, 99, 101, 0, 0, 0, 14, 115, 115, 104, 45, 99,
        111, 110, 110, 101, 99, 116, 105, 111, 110, 0, 0, 0, 4, 110, 111, 110, 101]]"
    using u by (simp only: k w append_Nil)
  from parse_mallory_request alice_authorized_keys mallory_not_registered h r' u'
  show ?thesis by blast
qed

subsection \<open>The next-request phase\<close>

text \<open>
  Claim C9. When an iteration of the loop reaches the next-request phase and the packet
  read from the downstream starts with a byte other than 50, the phase ends with the
  error "auth request msg can be acceptable", and so does the loop. So does
  \<^verbatim>\<open>AuthenticateProxyConn\<close>, in whichever iteration of its loop that happens: it returns
  that error. The final connection is the one before the read with the packet consumed:
  the upstream transport holds what the iteration had written before the phase and
  nothing more, so the packet was not bridged, and the result holds whatever
  \<^verbatim>\<open>Unmarshal\<close> is, so the packet was not decoded.
\<close>

theorem next_request_must_be_userauth_request:
  assumes "incoming (Downstream p2) = Inr (b # rest) # later"
    and "b \<noteq> msgUserAuthRequest"
    and "handleAuthMsg e proxyConf p m = Some (p1, Return (m', err))"
    and "bridgeStep e p1 m' = (p2, Proceed)"
  shows "nextRequest e p2 =
           (p2\<lparr>Downstream := (Downstream p2)\<lparr>incoming := later\<rparr>\<rparr>, Return (Inl ErrAuthRequestExpected))
    \<and> authLoop e proxyConf p m =
           Some (p2\<lparr>Downstream := (Downstream p2)\<lparr>incoming := later\<rparr>\<rparr>,
                 Return (Some ErrAuthRequestExpected))
    \<and> (\<forall>n p0 initUserAuthMsg u.
          sendAuthReq e (Upstream p0) = (None, u)
          \<and> loopState e proxyConf n (p0\<lparr>Upstream := u\<rparr>) initUserAuthMsg = Some (p, m)
          \<longrightarrow> AuthenticateProxyConn e proxyConf p0 initUserAuthMsg =
                Some (p2\<lparr>Downstream := (Downstream p2)\<lparr>incoming := later\<rparr>\<rparr>,
                      Return (Some ErrAuthRequestExpected)))
    \<and> writes (Upstream (p2\<lparr>Downstream := (Downstream p2)\<lparr>incoming := later\<rparr>\<rparr>)) =
        writes (Upstream p)
          @ (case m' of None \<Rightarrow> [] | Some x \<Rightarrow> [Marshal_userAuthRequestMsg e x])"
proof -
  let ?final = "p2\<lparr>Downstream := (Downstream p2)\<lparr>incoming := later\<rparr>\<rparr>"
  have n: "nextRequest e p2 = (?final, Return (Inl ErrAuthRequestExpected))"
    using assms(1,2) by (simp add: nextRequest_def readPacket_def)
  have a: "authLoop e proxyConf p m = Some (?final, Return (Some ErrAuthRequestExpected))"
    by (subst authLoop.simps) (simp add: assms(3,4) n)
  have c: "AuthenticateProxyConn e proxyConf p0 initUserAuthMsg =
      Some (?final, Return (Some ErrAuthRequestExpected))"
    if "sendAuthReq e (Upstream p0) = (None, u)"
      and "loopState e proxyConf k (p0\<lparr>Upstream := u\<rparr>) initUserAuthMsg = Some (p, m)"
    for k p0 initUserAuthMsg u
    using that loopState_authLoop [of e proxyConf k "p0\<lparr>Upstream := u\<rparr>" initUserAuthMsg p m] a
    by (simp add: AuthenticateProxyConn_def)
  have u: "Upstream p1 = Upstream p"
    using handleAuthMsg_upstream [OF assms(3)] .
  have w: "writes (Upstream ?final) =
      writes (Upstream p) @ (case m' of None \<Rightarrow> [] | Some x \<Rightarrow> [Marshal_userAuthRequestMsg e x])"
  proof (cases m')
    case None
    with assms(4) u show ?thesis by (auto simp: bridgeStep_def)
  next
    case (Some x)
    from bridgeStep_upstream_writes [of e p1 x] assms(4) Some u show ?thesis by simp
  qed
  from n a c w show ?thesis by blast
qed

theorem next_request_must_be_userauth_request_witness:
  "sendAuthReq sample_env
       (Upstream (sample_conn 1 [Inr accept_packet, Inr failure_packet, Inr failure_packet] []
          [Inr (sample_Marshal_request password_request), Inr [90]] [])) =
     (None, Upstream (sample_conn 1 [Inr failure_packet, Inr failure_packet]
          [service_request_packet]
          [Inr (sample_Marshal_request password_request), Inr [90]] []))
   \<and> loopState sample_env sample_conf (Suc 0)
         (sample_conn 1 [Inr failure_packet, Inr failure_packet] [service_request_packet]
            [Inr (sample_Marshal_request password_request), Inr [90]] [])
         password_request =
       Some (sample_conn 1 [Inr failure_packet]
               [service_request_packet, sample_Marshal_request password_request]
               [Inr [90]] [failure_packet],
             password_request)
   \<and> bridgeStep sample_env
         (sample_conn 1 [Inr failure_packet]
            [service_request_packet, sample_Marshal_request password_request]
            [Inr [90]] [failure_packet])
         (Some password_request) =
       (sample_conn 1 []
          [service_request_packet, sample_Marshal_request password_request,
           sample_Marshal_request password_request]
          [Inr [90]] [failure_packet, failure_packet],
        Proceed)
   \<and> 90 \<noteq> msgUserAuthRequest
   \<and> nextRequest sample_env
         (sample_conn 1 []
            [service_request_packet, sample_Marshal_request password_request,
             sample_Marshal_request password_request]
            [Inr [90]] [failure_packet, failure_packet]) =
       (sample_conn 1 []
          [service_request_packet, sample_Marshal_request password_request,
           sample_Marshal_request password_request]
          [] [failure_packet, failure_packet],
        Return (Inl ErrAuthRequestExpected))
   \<and> AuthenticateProxyConn sample_env sample_conf
         (sample_conn 1 [Inr accept_packet, Inr failure_packet, Inr failure_packet] []
            [Inr (sample_Marshal_request password_request), Inr [90]] [])
         password_request =
       Some (sample_conn 1 []
               [service_request_packet, sample_Marshal_request password_request,
                sample_Marshal_request password_request]
               [] [failure_packet, failure_packet],
             Return (Some ErrAuthRequestExpected))"
proof -
  let ?pw = "sample_Marshal_request password_request"
  let ?p0 = "sample_conn 1 [Inr accept_packet, Inr failure_packet, Inr failure_packet] []
      [Inr ?pw, Inr [90]] []"
  let ?u = "Upstream (sample_conn 1 [Inr failure_packet, Inr failure_packet]
      [service_request_packet] [Inr ?pw, Inr [90]] [])"
  let ?pa = "sample_conn 1 [Inr failure_packet, Inr failure_packet] [service_request_packet]
      [Inr ?pw, Inr [90]] []"
  let ?pk = "sample_conn 1 [Inr failure_packet] [service_request_packet, ?pw]
      [Inr [90]] [failure_packet]"
  let ?p2 = "sample_conn 1 [] [service_request_packet, ?pw, ?pw] [Inr [90]]
      [failure_packet, failure_packet]"
  let ?final = "sample_conn 1 [] [service_request_packet, ?pw, ?pw] []
      [failure_packet, failure_packet]"
  have s: "sendAuthReq sample_env (Upstream ?p0) = (None, ?u)"
    using send_auth_req_sample [of 1 "[Inr failure_packet, Inr failure_packet]" "[]"
        "[Inr ?pw, Inr [90]]" "[]"]
    by simp
  have pa: "?p0\<lparr>Upstream := ?u\<rparr> = ?pa"
    by (simp add: sample_conn_def)
  have l: "loopState sample_env sample_conf (Suc 0) ?pa password_request =
      Some (?pk, password_request)"
    using relay_failure_sample [of 1 "[Inr failure_packet]" "[service_request_packet]"
        "[Inr ?pw, Inr [90]]" "[]" password_request]
      next_request_sample [of 1 "[Inr failure_packet]" "[service_request_packet, ?pw]"
        "[Inr [90]]" "[failure_packet]"]
    by (simp add: handle_password_request)
  have a: "incoming (Downstream ?p2) = Inr (90 # []) # []"
    by (simp add: sample_conn_def)
  have b: "(90 :: byte) \<noteq> msgUserAuthRequest"
    by (simp add: msgUserAuthRequest_def)
  have r: "bridgeStep sample_env ?pk (Some password_request) = (?p2, Proceed)"
    using relay_failure_sample [of 1 "[]" "[service_request_packet, ?pw]" "[Inr [90]]"
        "[failure_packet]" password_request]
    by simp
  have f: "?p2\<lparr>Downstream := (Downstream ?p2)\<lparr>incoming := []\<rparr>\<rparr> = ?final"
    by (simp add: sample_conn_def)
  from next_request_must_be_userauth_request [OF a b handle_password_request r]
  have n: "nextRequest sample_env ?p2 = (?final, Return (Inl ErrAuthRequestExpected))"
    and c: "sendAuthReq sample_env (Upstream ?p0) = (None, ?u)
        \<and> loopState sample_env sample_conf (Suc 0) (?p0\<lparr>Upstream := ?u\<rparr>) password_request =
              Some (?pk, password_request)
      \<longrightarrow> AuthenticateProxyConn sample_env sample_conf ?p0 password_request =
            Some (?final, Return (Some ErrAuthRequestExpected))"
    unfolding f by blast+
  from c s l have "AuthenticateProxyConn sample_env sample_conf ?p0 password_request =
      Some (?final, Return (Some ErrAuthRequestExpected))"
    unfolding pa by blast
  with s l r b n show ?thesis by blast
qed

subsection \<open>The first byte of a packet\<close>

text \<open>
  Claim C10. The relay loop of \<^verbatim>\<open>checkBridgeAuthWithNoBanner\<close> and the next-request
  phase read the first byte of a packet without a test of its length: an empty packet
  from the upstream, or from the downstream, ends the function in an index panic, and
  when no packet of the script is empty neither function panics.
\<close>

theorem first_byte_needs_nonempty_packet:
  "(writePacket (Upstream p) packet = (None, t) \<and> incoming (Upstream p) = Inr [] # later \<longrightarrow>
      checkBridgeAuthWithNoBanner p packet =
        (p\<lparr>Upstream := t\<lparr>incoming := later\<rparr>\<rparr>, Panic IndexOutOfRange))
   \<and> (incoming (Downstream p) = Inr [] # later \<longrightarrow>
      nextRequest e p =
        (p\<lparr>Downstream := (Downstream p)\<lparr>incoming := later\<rparr>\<rparr>, Panic IndexOutOfRange))
   \<and> (Inr [] \<notin> set (incoming (Upstream p)) \<longrightarrow>
      snd (checkBridgeAuthWithNoBanner p packet) \<noteq> Panic k)
   \<and> (Inr [] \<notin> set (incoming (Downstream p)) \<longrightarrow> snd (nextRequest e p) \<noteq> Panic k)"
proof (intro conjI impI)
  assume a: "writePacket (Upstream p) packet = (None, t) \<and> incoming (Upstream p) = Inr [] # later"
  then have "incoming t = Inr [] # later"
    using writePacket_incoming by metis
  with a show "checkBridgeAuthWithNoBanner p packet =
      (p\<lparr>Upstream := t\<lparr>incoming := later\<rparr>\<rparr>, Panic IndexOutOfRange)"
    by (simp add: checkBridgeAuthWithNoBanner_def relayLoop.simps readPacket_def)
next
  assume "incoming (Downstream p) = Inr [] # later"
  then show "nextRequest e p =
      (p\<lparr>Downstream := (Downstream p)\<lparr>incoming := later\<rparr>\<rparr>, Panic IndexOutOfRange)"
    by (simp add: nextRequest_def readPacket_def)
next
  assume a: "Inr [] \<notin> set (incoming (Upstream p))"
  have "Inr [] \<notin> set (incoming (Upstream (p\<lparr>Upstream := snd (writePacket (Upstream p) packet)\<rparr>)))"
    using a by (simp add: writePacket_incoming')
  from relayLoop_no_panic [OF this, of k]
  show "snd (checkBridgeAuthWithNoBanner p packet) \<noteq> Panic k"
    by (auto simp: checkBridgeAuthWithNoBanner_def split: prod.splits option.splits)
next
  assume "Inr [] \<notin> set (incoming (Downstream p))"
  then show "snd (nextRequest e p) \<noteq> Panic k"
    by (auto simp: nextRequest_def readPacket_def split: list.splits sum.splits)
qed

theorem first_byte_needs_nonempty_packet_witness:
  "writePacket (Upstream (sample_conn 1 [Inr []] [] [] [])) [50] =
     (None, Upstream (sample_conn 1 [Inr []] [[50]] [] []))
   \<and> checkBridgeAuthWithNoBanner (sample_conn 1 [Inr []] [] [] []) [50] =
       (sample_conn 1 [] [[50]] [] [], Panic IndexOutOfRange)
   \<and> nextRequest sample_env (sample_conn 1 [] [] [Inr []] []) =
       (sample_conn 1 [] [] [] [], Panic IndexOutOfRange)
   \<and> Inr [] \<notin> set (incoming (Upstream (sample_conn 1 [Inr failure_packet] [] [Inr [90]] [])))
   \<and> snd (checkBridgeAuthWithNoBanner (sample_conn 1 [Inr failure_packet] [] [Inr [90]] []) [50])
       \<noteq> Panic IndexOutOfRange
   \<and> Inr [] \<notin> set (incoming (Downstream (sample_conn 1 [Inr failure_packet] [] [Inr [90]] [])))
   \<and> snd (nextRequest sample_env (sample_conn 1 [Inr failure_packet] [] [Inr [90]] []))
       \<noteq> Panic IndexOutOfRange"
proof -
  let ?p = "sample_conn 1 [Inr []] [] [Inr []] []"
  let ?q = "sample_conn 1 [Inr failure_packet] [] [Inr [90]] []"
  have a: "writePacket (Upstream (sample_conn 1 [Inr []] [] [] [])) [50] =
      (None, Upstream (sample_conn 1 [Inr []] [[50]] [] []))"
    by (simp add: sample_conn_def writePacket_def)
  have b: "incoming (Upstream (sample_conn 1 [Inr []] [] [] [])) = Inr [] # []"
    by (simp add: sample_conn_def)
  have c: "incoming (Downstream (sample_conn 1 [] [] [Inr []] [])) = Inr [] # []"
    by (simp add: sample_conn_def)
  have d: "Inr [] \<notin> set (incoming (Upstream ?q))" "Inr [] \<notin> set (incoming (Downstream ?q))"
    by (simp_all add: sample_conn_def failure_packet_def)
  have u: "(sample_conn 1 [Inr []] [] [] [])\<lparr>Upstream :=
        (Upstream (sample_conn 1 [Inr []] [[50]] [] []))\<lparr>incoming := []\<rparr>\<rparr> =
      sample_conn 1 [] [[50]] [] []"
    "(sample_conn 1 [] [] [Inr []] [])\<lparr>Downstream :=
        (Downstream (sample_conn 1 [] [] [Inr []] []))\<lparr>incoming := []\<rparr>\<rparr> =
      sample_conn 1 [] [] [] []"
    by (simp_all add: sample_conn_def)
  from first_byte_needs_nonempty_packet [of "sample_conn 1 [Inr []] [] [] []" "[50]"
      "Upstream (sample_conn 1 [Inr []] [[50]] [] [])" "[]" sample_env IndexOutOfRange]
    a b
  have 1: "checkBridgeAuthWithNoBanner (sample_conn 1 [Inr []] [] [] []) [50] =
      (sample_conn 1 [] [[50]] [] [], Panic IndexOutOfRange)"
    unfolding u by simp
  from first_byte_needs_nonempty_packet [of "sample_conn 1 [] [] [Inr []] []" "[50]"
      "Upstream (sample_conn 1 [] [] [Inr []] [])" "[]" sample_env IndexOutOfRange] c
  have 2: "nextRequest sample_env (sample_conn 1 [] [] [Inr []] []) =
      (sample_conn 1 [] [] [] [], Panic IndexOutOfRange)"
    unfolding u by simp
  from first_byte_needs_nonempty_packet [of ?q "[50]" "Upstream ?q" "[]" sample_env
      IndexOutOfRange] d
  have 3: "snd (checkBridgeAuthWithNoBanner ?q [50]) \<noteq> Panic IndexOutOfRange"
    "snd (nextRequest sample_env ?q) \<noteq> Panic IndexOutOfRange"
    by simp_all
  from a 1 2 3 d show ?thesis by simp
qed

end
